theory Spec2Isabelle
  imports Main "HOL-Library.AList"
begin

section \<open>Python values and built-ins used by the sheets module\<close>

text \<open>
  Exceptions of the source are values: every function that can raise returns
  \<open>error + 'a\<close>, with \<open>Inl\<close> for the exception.
\<close>

datatype error = KeyError | TypeError | ValueError | AttributeError | IndexError
  | ClassFullException

text \<open>
  A spreadsheet, as \<open>Sheet.spreadsheet\<close> holds it after the read: a list of rows, each
  a list of strings; rows may have different lengths. A value read through
  \<open>get_column\<close> is a string, or Python's \<open>None\<close> where the row is too short.
  Identifiers of people are such values too (\<open>student.id = roster_names[i][0]\<close>).
\<close>

type_synonym sheet = "string list list"
type_synonym cell = "string option"

text \<open>\<open>str.strip()\<close> and \<open>str.lower()\<close>, on ASCII.\<close>

definition is_space :: "char \<Rightarrow> bool" where
  "is_space c = (let n = (of_char c :: nat) in (9 \<le> n \<and> n \<le> 13) \<or> (28 \<le> n \<and> n \<le> 32))"

definition strip :: "string \<Rightarrow> string" where
  "strip s = rev (dropWhile is_space (rev (dropWhile is_space s)))"

definition lower_char :: "char \<Rightarrow> char" where
  "lower_char c = (let n = (of_char c :: nat) in if 65 \<le> n \<and> n \<le> 90 then char_of (n + 32) else c)"

definition lower :: "string \<Rightarrow> string" where
  "lower s = map lower_char s"

text \<open>
  \<open>int(s)\<close> on a string: surrounding whitespace, an optional sign, decimal digits with
  single underscores between them; anything else raises ValueError (here \<open>None\<close>).
\<close>

definition digit_val :: "char \<Rightarrow> nat option" where
  "digit_val c = (let n = (of_char c :: nat) in if 48 \<le> n \<and> n \<le> 57 then Some (n - 48) else None)"

fun parse_digits :: "nat \<Rightarrow> bool \<Rightarrow> string \<Rightarrow> nat option" where
  "parse_digits acc prev [] = (if prev then Some acc else None)"
| "parse_digits acc prev (c # cs) =
     (if c = CHR ''_'' then (if prev then parse_digits acc False cs else None)
      else case digit_val c of
             None \<Rightarrow> None
           | Some d \<Rightarrow> parse_digits (acc * 10 + d) True cs)"

definition py_int :: "string \<Rightarrow> int option" where
  "py_int s =
     (case strip s of
        [] \<Rightarrow> None
      | c # cs \<Rightarrow>
          if c = CHR ''-'' then map_option (\<lambda>n. - int n) (parse_digits 0 False cs)
          else if c = CHR ''+'' then map_option int (parse_digits 0 False cs)
          else map_option int (parse_digits 0 False (c # cs)))"

text \<open>\<open>list.index(x)\<close>: the first position of \<open>x\<close>, ValueError (here \<open>None\<close>) when absent.\<close>

fun index_of :: "'a list \<Rightarrow> 'a \<Rightarrow> nat option" where
  "index_of [] x = None"
| "index_of (y # ys) x = (if y = x then Some 0 else map_option Suc (index_of ys x))"

subsection \<open>Sheet.get_column, Sheet.get_row\<close>

text \<open>
  \<open>get_column\<close> collects \<open>row[index]\<close> of every row, \<open>None\<close> where the row is too short,
  and returns \<open>None\<close> instead of the list when every entry is \<open>None\<close> (also for a sheet
  without rows).
\<close>

definition get_column :: "sheet \<Rightarrow> nat \<Rightarrow> cell list option" where
  "get_column spreadsheet index =
     (let result = map (\<lambda>row. if index < length row then Some (row ! index) else None) spreadsheet
      in if result = replicate (length spreadsheet) None then None else Some result)"

definition get_row :: "sheet \<Rightarrow> nat \<Rightarrow> string list option" where
  "get_row spreadsheet index =
     (if index < length spreadsheet then Some (spreadsheet ! index) else None)"

section \<open>People (sheets/people.py) and classes (sheets/_class.py)\<close>

text \<open>
  \<open>Person.__init__\<close> strips the names, lower-cases the email and draws a fresh
  \<open>uuid4()\<close>; the drawn value is an argument here.
\<close>

record person =
  first :: string
  lastn :: string
  full_name :: string
  email :: "string option"
  ident :: cell

record student = person +
  snote :: "string option"
  parents :: "cell list"
  classes :: "string list"

record parent = person +
  children :: "cell list"

definition MAX_ENROLLMENTS :: nat where
  "MAX_ENROLLMENTS = 3"

definition set_parents :: "student \<Rightarrow> cell list \<Rightarrow> error + student" where
  "set_parents s ps = (if length ps > 2 then Inl ValueError else Inr (s\<lparr>parents := ps\<rparr>))"

definition set_classes :: "student \<Rightarrow> string list \<Rightarrow> error + student" where
  "set_classes s cs =
     (if length cs > MAX_ENROLLMENTS then Inl ValueError else Inr (s\<lparr>classes := cs\<rparr>))"

definition Student ::
  "string \<Rightarrow> string \<Rightarrow> string option \<Rightarrow> string option \<Rightarrow> cell list \<Rightarrow> string list \<Rightarrow> string
   \<Rightarrow> error + student" where
  "Student f l e n ps cs uuid =
     (let s = \<lparr>first = strip f, lastn = strip l, full_name = strip f @ '' '' @ strip l,
               email = map_option (\<lambda>x. lower (strip x)) e, ident = Some uuid,
               snote = n, parents = [], classes = []\<rparr>
      in case set_parents s ps of
           Inl err \<Rightarrow> Inl err
         | Inr s1 \<Rightarrow> set_classes s1 cs)"

definition Parent :: "string \<Rightarrow> string \<Rightarrow> string \<Rightarrow> cell list \<Rightarrow> string \<Rightarrow> parent" where
  "Parent f l e ch uuid =
     \<lparr>first = strip f, lastn = strip l, full_name = strip f @ '' '' @ strip l,
      email = Some (lower (strip e)), ident = Some uuid, children = ch\<rparr>"

text \<open>
  A class, as far as rosters are concerned: its capacity and the identifiers seated.
  \<open>set_students\<close> refuses a list longer than the capacity.
\<close>

record class_rec =
  CLASS_CAP :: int
  code_of :: string
  cstudents :: "cell list"

definition set_students :: "class_rec \<Rightarrow> cell list \<Rightarrow> error + class_rec" where
  "set_students c studs =
     (if int (length studs) > CLASS_CAP c then Inl ClassFullException
      else Inr (c\<lparr>cstudents := studs\<rparr>))"

section \<open>StudentRegistrationSheet.place_student\<close>

text \<open>
  \<open>roster_names\<close>: the zip of columns 1, 2, 3 and 6 of a roster (uuid, first name, last
  name, first parent's uuid). \<open>zip\<close> raises TypeError when a column is \<open>None\<close>.
\<close>

type_synonym roster_row = "cell \<times> cell \<times> cell \<times> cell"
type_synonym stud_info = "string \<times> string \<times> string \<times> string"

definition roster_names :: "sheet \<Rightarrow> error + roster_row list" where
  "roster_names roster =
     (case (get_column roster 1, get_column roster 2, get_column roster 3, get_column roster 6) of
        (Some c1, Some c2, Some c3, Some c6) \<Rightarrow> Inr (zip c1 (zip c2 (zip c3 c6)))
      | _ \<Rightarrow> Inl TypeError)"

text \<open>
  The search of the roster rows (the loop over \<open>range(1, len(roster_names))\<close>): while
  \<open>found\<close> is false, a row whose first and last name equal the student's is looked up
  in the parent sheet by its first parent's uuid, and matches when that parent row
  carries the first parent's names of the submission. The loop state is \<open>found\<close> and
  \<open>student.id\<close>.
\<close>

fun find_student ::
  "stud_info \<Rightarrow> sheet \<Rightarrow> roster_row list \<Rightarrow> bool \<times> cell \<Rightarrow> error + (bool \<times> cell)" where
  "find_student info parent_sheet [] st = Inr st"
| "find_student (sf, sl, pf, pl) parent_sheet ((uid, rf, rl, rp) # rows) (fnd, sid) =
     (if \<not> fnd then
        (if (Some sf, Some sl) = (rf, rl) then
           (case get_column parent_sheet 0 of
              None \<Rightarrow> Inl AttributeError
            | Some col \<Rightarrow>
                (case index_of col rp of
                   None \<Rightarrow> Inl ValueError
                 | Some index \<Rightarrow>
                     (case get_row parent_sheet index of
                        None \<Rightarrow> Inl TypeError
                      | Some prow \<Rightarrow>
                          if [pf, pl] = take 2 (drop 1 prow)
                          then find_student (sf, sl, pf, pl) parent_sheet rows (True, uid)
                          else find_student (sf, sl, pf, pl) parent_sheet rows (fnd, sid))))
         else find_student (sf, sl, pf, pl) parent_sheet rows (fnd, sid))
      else find_student (sf, sl, pf, pl) parent_sheet rows (fnd, sid))"

text \<open>
  \<open>class_cap = int(main_sheet.get_column(8)[main_sheet.get_column(0).index(code)])\<close>.
\<close>

definition class_cap :: "sheet \<Rightarrow> string \<Rightarrow> error + int" where
  "class_cap main_sheet code =
     (case get_column main_sheet 0 of
        None \<Rightarrow> Inl AttributeError
      | Some c0 \<Rightarrow>
          (case index_of c0 (Some code) of
             None \<Rightarrow> Inl ValueError
           | Some i \<Rightarrow>
               (case get_column main_sheet 8 of
                  None \<Rightarrow> Inl TypeError
                | Some c8 \<Rightarrow>
                    if i < length c8 then
                      (case c8 ! i of
                         None \<Rightarrow> Inl TypeError
                       | Some v \<Rightarrow> (case py_int v of None \<Rightarrow> Inl ValueError | Some n \<Rightarrow> Inr n))
                    else Inl IndexError)))"

text \<open>
  The state of one call: the student (mutated in place by the source), the two result
  lists, the \<open>found\<close> flag, which is initialised to \<open>False\<close> before the loop over the
  choices and nowhere reset, and \<open>offset_dict\<close>, the caller's dictionary, mutated in
  place. \<open>place_student\<close> returns the final state: the source returns the student and
  the two lists, and leaves the offsets in the caller's dictionary.
\<close>

record place_state =
  stud :: student
  unaccepted :: "string list"
  invalid :: "string list"
  found :: bool
  offset_dict :: "string \<rightharpoonup> int"

definition session_equivalent :: "string \<Rightarrow> string \<Rightarrow> bool" where
  "session_equivalent code c = (take 4 code = take 4 c)"

definition accept :: "string \<Rightarrow> place_state \<Rightarrow> place_state" where
  "accept code s = s\<lparr>stud := (stud s)\<lparr>classes := classes (stud s) @ [code]\<rparr>\<rparr>"

text \<open>The body of the loop over the choices.\<close>

definition place_choice ::
  "(string \<rightharpoonup> sheet) \<Rightarrow> sheet \<Rightarrow> sheet \<Rightarrow> stud_info \<Rightarrow> string \<Rightarrow> place_state
   \<Rightarrow> error + place_state" where
  "place_choice sheet_data main_sheet parent_sheet info code s =
     (if strip code = [] then Inr s
      else if list_ex (session_equivalent code) (classes (stud s)) then Inr s
      else
        (case sheet_data code of
           None \<Rightarrow> Inr (s\<lparr>invalid := invalid s @ [code]\<rparr>)
         | Some roster \<Rightarrow>
             (case roster_names roster of
                Inl err \<Rightarrow> Inl err
              | Inr names \<Rightarrow>
                  (case find_student info parent_sheet (drop 1 names) (found s, ident (stud s)) of
                     Inl err \<Rightarrow> Inl err
                   | Inr (fnd, sid) \<Rightarrow>
                       (case class_cap main_sheet code of
                          Inl err \<Rightarrow> Inl err
                        | Inr cap \<Rightarrow>
                            (case offset_dict s code of
                               None \<Rightarrow> Inl KeyError
                             | Some off \<Rightarrow>
                                 (let s1 = s\<lparr>stud := (stud s)\<lparr>ident := sid\<rparr>, found := fnd\<rparr>
                                  in if int (length names) - 1 + off < cap \<and> \<not> fnd
                                     then Inr ((accept code s1)
                                                 \<lparr>offset_dict := (offset_dict s1)(code \<mapsto> off + 1)\<rparr>)
                                     else if int (length names) - 1 + off \<ge> cap \<and> \<not> fnd
                                     then Inr (s1\<lparr>unaccepted := unaccepted s1 @ [code]\<rparr>)
                                     else if fnd then Inr (accept code s1)
                                     else Inr s1)))))))"

fun place_loop ::
  "(string \<rightharpoonup> sheet) \<Rightarrow> sheet \<Rightarrow> sheet \<Rightarrow> stud_info \<Rightarrow> string list \<Rightarrow> place_state
   \<Rightarrow> error + place_state" where
  "place_loop sheet_data main_sheet parent_sheet info [] s = Inr s"
| "place_loop sheet_data main_sheet parent_sheet info (code # rest) s =
     (case place_choice sheet_data main_sheet parent_sheet info code s of
        Inl err \<Rightarrow> Inl err
      | Inr s' \<Rightarrow> place_loop sheet_data main_sheet parent_sheet info rest s')"

definition place_student ::
  "student \<Rightarrow> string list \<Rightarrow> stud_info \<Rightarrow> (string \<rightharpoonup> sheet) \<Rightarrow> sheet \<Rightarrow> (string \<rightharpoonup> int)
   \<Rightarrow> error + place_state" where
  "place_student st chs info sheet_data parent_sheet offs =
     (case sheet_data ''Classes'' of
        None \<Rightarrow> Inl KeyError
      | Some main_sheet \<Rightarrow>
          place_loop sheet_data main_sheet parent_sheet info chs
            \<lparr>stud = st, unaccepted = [], invalid = [], found = False, offset_dict = offs\<rparr>)"

section \<open>StudentRegistrationSheet.get_form_responses\<close>

text \<open>
  One registration submission. \<open>get_form_responses\<close> is the only constructor call of
  the source and passes stripped strings for every field, so the fields are strings.
\<close>

record form_response =
  student_first :: string
  student_last :: string
  student_email :: string
  student_note :: string
  parent1_first :: string
  parent1_last :: string
  parent1_email :: string
  parent2_first :: string
  parent2_last :: string
  parent2_email :: string
  choices :: "string list"

text \<open>
  A row of the form sheet: empty rows are skipped, the cells 3 to 11 and 23 are read
  (IndexError on a shorter row) and the choices are the non-blank cells of
  \<open>row[25:27]\<close>, stripped.
\<close>

definition response_of_row :: "string list \<Rightarrow> form_response" where
  "response_of_row row =
     \<lparr>student_first = strip (row ! 3), student_last = strip (row ! 4),
      student_email = strip (row ! 5), student_note = strip (row ! 23),
      parent1_first = strip (row ! 6), parent1_last = strip (row ! 7),
      parent1_email = strip (row ! 8),
      parent2_first = strip (row ! 9), parent2_last = strip (row ! 10),
      parent2_email = strip (row ! 11),
      choices = map strip (filter (\<lambda>code. strip code \<noteq> []) (take 2 (drop 25 row)))\<rparr>"

fun form_rows :: "string list list \<Rightarrow> error + form_response list" where
  "form_rows [] = Inr []"
| "form_rows (row # rows) =
     (if length row = 0 then form_rows rows
      else if length row < 24 then Inl IndexError
      else (case form_rows rows of
              Inl err \<Rightarrow> Inl err
            | Inr rs \<Rightarrow> Inr (response_of_row row # rs)))"

definition get_form_responses :: "sheet \<Rightarrow> error + form_response list" where
  "get_form_responses spreadsheet = form_rows (drop 1 spreadsheet)"

definition get_student :: "form_response \<Rightarrow> string \<Rightarrow> error + (student \<times> string list)" where
  "get_student r uuid =
     (case Student (student_first r) (student_last r) (Some (student_email r))
             (Some (student_note r)) [] [] uuid of
        Inl err \<Rightarrow> Inl err
      | Inr s \<Rightarrow> Inr (s, choices r))"

section \<open>StudentRegistrationSheet.get_students_parents\<close>

subsection \<open>The parents dictionary\<close>

text \<open>
  Dictionaries that are iterated are association lists in insertion order;
  \<open>d[k] = v\<close> is \<open>AList.update k v d\<close> (a present key keeps its place).

  The \<open>for parent in parents.values()\<close> loop with its \<open>else\<close>: the first parent whose
  (first, last, email) equals the key gets the student's id appended to its children;
  the result is the dictionary and that parent, or \<open>None\<close> when the loop ends without
  \<open>break\<close>.
\<close>

fun match_parent ::
  "string \<times> string \<times> string \<Rightarrow> cell \<Rightarrow> (cell \<times> parent) list
   \<Rightarrow> ((cell \<times> parent) list \<times> parent) option" where
  "match_parent ne sid [] = None"
| "match_parent ne sid ((k, p) # ps) =
     (if (first p, lastn p, email p) = (fst ne, fst (snd ne), Some (snd (snd ne)))
      then (let p' = p\<lparr>children := children p @ [sid]\<rparr> in Some ((k, p') # ps, p'))
      else map_option (\<lambda>(ps', q). ((k, p) # ps', q)) (match_parent ne sid ps))"

text \<open>
  Resolution of one parent block of a submission: the matched parent, or a new
  \<open>Parent\<close> with a fresh uuid stored under its id. Returns the dictionary, the id that
  is appended to \<open>student.parents\<close>, and the number of uuids drawn so far.
\<close>

definition resolve_parent ::
  "(nat \<Rightarrow> string) \<Rightarrow> string \<Rightarrow> string \<Rightarrow> string \<Rightarrow> cell \<Rightarrow> (cell \<times> parent) list \<times> nat
   \<Rightarrow> (cell \<times> parent) list \<times> cell \<times> nat" where
  "resolve_parent uuid4 pf pl pe sid st =
     (case match_parent (pf, pl, lower pe) sid (fst st) of
        Some (ps', p) \<Rightarrow> (ps', ident p, snd st)
      | None \<Rightarrow>
          (let p = Parent pf pl pe [sid] (uuid4 (snd st))
           in (AList.update (ident p) p (fst st), ident p, Suc (snd st))))"

text \<open>The parents already on the Parents sheet (rows from index 1).\<close>

fun load_parents ::
  "(nat \<Rightarrow> string) \<Rightarrow> string list list \<Rightarrow> (cell \<times> parent) list \<times> nat
   \<Rightarrow> (cell \<times> parent) list \<times> nat" where
  "load_parents uuid4 [] st = st"
| "load_parents uuid4 (row # rows) (ps, n) =
     (if length row < 3 then load_parents uuid4 rows (ps, n)
      else
        (let e = (if length row = 3 then [] else row ! 3);
             p = (Parent (strip (row ! 1)) (strip (row ! 2)) e [] (uuid4 n))
                   \<lparr>ident := Some (row ! 0)\<rparr>
         in load_parents uuid4 rows (AList.update (Some (row ! 0)) p ps, Suc n)))"

subsection \<open>Notification logs\<close>

text \<open>
  The two log sheets ("Invalid Code Emails", "Full Class Emails") are read as the zip of
  their columns 0 to 3: (student full name, parent 1 email, parent 2 email, code).
  Sending an email and writing a row are recorded as effects.
\<close>

type_synonym log_row = "cell \<times> cell \<times> cell \<times> cell"

datatype kind = InvalidCode | ClassFull

datatype effect =
    Send kind "string list" string string
  | WriteRow kind "string list" nat

definition sheet_info :: "sheet \<Rightarrow> error + log_row list" where
  "sheet_info sh =
     (case (get_column sh 0, get_column sh 1, get_column sh 2, get_column sh 3) of
        (Some c0, Some c1, Some c2, Some c3) \<Rightarrow> Inr (zip c0 (zip c1 (zip c2 c3)))
      | _ \<Rightarrow> Inl TypeError)"

text \<open>
  The inner \<open>for i in range(1, length)\<close>: true when it ends with \<open>break\<close>, that is when a
  logged row from index 1 on has the student's full name, the code, and one of its two
  emails among the recipients.
\<close>

definition already_notified :: "log_row list \<Rightarrow> nat \<Rightarrow> string \<Rightarrow> cell list \<Rightarrow> string \<Rightarrow> bool" where
  "already_notified info len name recipients code =
     list_ex (\<lambda>(n, p1, p2, c). Some name = n \<and> Some code = c
                \<and> (p1 \<in> set recipients \<or> p2 \<in> set recipients))
       (drop 1 (take len info))"

text \<open>
  The body of \<open>for code in invalid\<close> (and of \<open>for code in unaccepted\<close>, which differs
  only in the sheet and the email sent). The state is the log as read and grown, the
  variable \<open>length\<close>, and the effects so far.
\<close>

definition notify_code ::
  "kind \<Rightarrow> string \<Rightarrow> string \<Rightarrow> string \<Rightarrow> string \<Rightarrow> log_row list \<times> nat \<times> effect list
   \<Rightarrow> log_row list \<times> nat \<times> effect list" where
  "notify_code k name p1 p2 code st =
     (case st of (info, len, fx) \<Rightarrow>
        if already_notified info len name [Some p1, Some p2] code then (info, len, fx)
        else (info @ [(Some name, Some p1, Some p2, Some code)], len + 1,
              fx @ [Send k [p1, p2] name code, WriteRow k [name, p1, p2, code] len]))"

fun notify_codes ::
  "kind \<Rightarrow> string \<Rightarrow> string \<Rightarrow> string \<Rightarrow> string list \<Rightarrow> log_row list \<times> nat \<times> effect list
   \<Rightarrow> log_row list \<times> nat \<times> effect list" where
  "notify_codes k name p1 p2 [] st = st"
| "notify_codes k name p1 p2 (code # codes) st =
     notify_codes k name p1 p2 codes (notify_code k name p1 p2 code st)"

subsection \<open>The pass over the submissions\<close>

record run_state =
  students :: "(cell \<times> student) list"
  parents_dict :: "(cell \<times> parent) list"
  info_list :: "stud_info list"
  class_to_planned_writes :: "string \<rightharpoonup> int"
  invalid_sheet_info :: "log_row list"
  full_class_sheet_info :: "log_row list"
  effects :: "effect list"
  uuids_drawn :: nat

text \<open>
  The block under \<open>if len(student.classes) > 0\<close>: the student is stored under its id,
  the first parent is resolved, and the second one when its first name is not blank.
\<close>

definition register_student ::
  "(nat \<Rightarrow> string) \<Rightarrow> form_response \<Rightarrow> student \<Rightarrow> run_state \<Rightarrow> run_state" where
  "register_student uuid4 r s st =
     (case resolve_parent uuid4 (parent1_first r) (parent1_last r) (parent1_email r)
             (ident s) (parents_dict st, uuids_drawn st) of
        (ps1, pid1, n1) \<Rightarrow>
          (let s1 = s\<lparr>parents := parents s @ [pid1]\<rparr>
           in if strip (parent2_first r) \<noteq> [] then
                (case resolve_parent uuid4 (parent2_first r) (parent2_last r) (parent2_email r)
                        (ident s) (ps1, n1) of
                   (ps2, pid2, n2) \<Rightarrow>
                     st\<lparr>students := AList.update (ident s)
                                       (s1\<lparr>parents := parents s1 @ [pid2]\<rparr>) (students st),
                        parents_dict := ps2, uuids_drawn := n2\<rparr>)
              else st\<lparr>students := AList.update (ident s) s1 (students st),
                      parents_dict := ps1, uuids_drawn := n1\<rparr>))"

text \<open>The body of \<open>for r in self.responses\<close>.\<close>

definition process_response ::
  "(nat \<Rightarrow> string) \<Rightarrow> (string \<rightharpoonup> sheet) \<Rightarrow> sheet \<Rightarrow> form_response \<Rightarrow> run_state
   \<Rightarrow> error + run_state" where
  "process_response uuid4 sheet_data parent_sheet r st =
     (let info = (student_first r, student_last r, parent1_first r, parent1_last r)
      in if info \<in> set (info_list st) then Inr st
         else
           (case get_student r (uuid4 (uuids_drawn st)) of
              Inl err \<Rightarrow> Inl err
            | Inr (s0, chs) \<Rightarrow>
                (case place_student s0 chs info sheet_data parent_sheet
                        (class_to_planned_writes st) of
                   Inl err \<Rightarrow> Inl err
                 | Inr res \<Rightarrow>
                     (let st1 = st\<lparr>info_list := info_list st @ [info],
                                   uuids_drawn := Suc (uuids_drawn st),
                                   class_to_planned_writes := offset_dict res\<rparr>;
                          s = stud res;
                          st2 = (if length (classes s) > 0 then register_student uuid4 r s st1
                                 else st1)
                      in case notify_codes InvalidCode (full_name s) (parent1_email r)
                                (parent2_email r) (invalid res)
                                (invalid_sheet_info st2, length (invalid_sheet_info st2),
                                 effects st2) of
                           (inv_info, inv_len, fx1) \<Rightarrow>
                             (case notify_codes ClassFull (full_name s) (parent1_email r)
                                     (parent2_email r) (unaccepted res)
                                     (full_class_sheet_info st2,
                                      length (full_class_sheet_info st2), fx1) of
                                (full_info, full_len, fx2) \<Rightarrow>
                                  Inr (st2\<lparr>invalid_sheet_info := inv_info,
                                           full_class_sheet_info := full_info,
                                           effects := fx2\<rparr>))))))"

fun run_responses ::
  "(nat \<Rightarrow> string) \<Rightarrow> (string \<rightharpoonup> sheet) \<Rightarrow> sheet \<Rightarrow> form_response list \<Rightarrow> run_state
   \<Rightarrow> error + run_state" where
  "run_responses uuid4 sheet_data parent_sheet [] st = Inr st"
| "run_responses uuid4 sheet_data parent_sheet (r # rs) st =
     (case process_response uuid4 sheet_data parent_sheet r st of
        Inl err \<Rightarrow> Inl err
      | Inr st' \<Rightarrow> run_responses uuid4 sheet_data parent_sheet rs st')"

text \<open>
  The whole method. Its inputs are what the source reads: the submissions
  (\<open>self.responses\<close>), the two log sheets, the batch read of all rosters
  (\<open>all_rosters.sheet_data\<close>, keyed by class code, with the master sheet under
  "Classes"), the Parents sheet, and the sequence of values \<open>uuid4()\<close> returns.
\<close>

definition get_students_parents ::
  "(nat \<Rightarrow> string) \<Rightarrow> form_response list \<Rightarrow> sheet \<Rightarrow> sheet \<Rightarrow> (string \<rightharpoonup> sheet) \<Rightarrow> sheet
   \<Rightarrow> error + run_state" where
  "get_students_parents uuid4 responses invalid_sheet full_class_sheet sheet_data parent_sheet =
     (case sheet_info invalid_sheet of
        Inl err \<Rightarrow> Inl err
      | Inr inv_info \<Rightarrow>
          (case sheet_info full_class_sheet of
             Inl err \<Rightarrow> Inl err
           | Inr full_info \<Rightarrow>
               (case get_column parent_sheet 0 of
                  None \<Rightarrow> Inl TypeError
                | Some col \<Rightarrow>
                    (case load_parents uuid4 (drop 1 parent_sheet) ([], 0) of
                       (ps, n) \<Rightarrow>
                         run_responses uuid4 sheet_data parent_sheet responses
                           \<lparr>students = [], parents_dict = ps, info_list = [],
                            class_to_planned_writes = map_option (\<lambda>_. 0) \<circ> sheet_data,
                            invalid_sheet_info = inv_info, full_class_sheet_info = full_info,
                            effects = [], uuids_drawn = n\<rparr>))))"

section \<open>ClassRosterSheet.get_classes and write_placements\<close>

text \<open>
  \<open>Class.__init__\<close>: a capacity of -1 stands for the default of 15; the code is decoded
  against the tables of \<open>Codes\<close> (only their keys matter here) and the student list is
  installed through \<open>set_students\<close>.
\<close>

definition table_error :: "string \<Rightarrow> string \<Rightarrow> nat \<Rightarrow> error option" where
  "table_error keys code i =
     (if i < length code then (if code ! i \<in> set keys then None else Some KeyError)
      else Some IndexError)"

definition decode_error :: "string \<Rightarrow> error option" where
  "decode_error code =
     (case table_error ''12345678'' code 0 of
        Some err \<Rightarrow> Some err
      | None \<Rightarrow>
     (case table_error ''1234'' code 1 of
        Some err \<Rightarrow> Some err
      | None \<Rightarrow>
     (case table_error ''1234'' code 2 of
        Some err \<Rightarrow> Some err
      | None \<Rightarrow>
     (case table_error ''123456789'' code 3 of
        Some err \<Rightarrow> Some err
      | None \<Rightarrow>
          if 4 < length code
          then (case py_int [code ! 4] of None \<Rightarrow> Some ValueError | Some n \<Rightarrow> None)
          else Some IndexError))))"

definition Class_init :: "string \<Rightarrow> cell list \<Rightarrow> int \<Rightarrow> error + class_rec" where
  "Class_init code studs class_cap' =
     (let cap = (if class_cap' = - 1 then 15 else class_cap')
      in case decode_error code of
           Some err \<Rightarrow> Inl err
         | None \<Rightarrow> set_students \<lparr>CLASS_CAP = cap, code_of = code, cstudents = []\<rparr> studs)"

text \<open>
  \<open>get_classes\<close>, as far as \<open>write_placements\<close> reads its result: for every row of the
  master sheet with at least 9 cells and a non-empty code, the class with the uuid
  column of its roster (from row 1 on) as students. Of the teachers only the lookups
  \<open>self.teachers[row[5]]\<close> and \<open>self.teachers[row[6]]\<close> are kept (KeyError on an unknown
  teacher); \<open>teachers\<close> are the keys of that dictionary.
\<close>

fun class_rows ::
  "(string \<rightharpoonup> sheet) \<Rightarrow> string list \<Rightarrow> string list list \<Rightarrow> (string \<rightharpoonup> class_rec)
   \<Rightarrow> error + (string \<rightharpoonup> class_rec)" where
  "class_rows sheet_data teachers [] cls = Inr cls"
| "class_rows sheet_data teachers (row # rows) cls =
     (if length row < 9 \<or> row ! 0 = [] then class_rows sheet_data teachers rows cls
      else
        (case py_int (row ! 8) of
           None \<Rightarrow> Inl ValueError
         | Some cap \<Rightarrow>
             (case Class_init (row ! 0) [] cap of
                Inl err \<Rightarrow> Inl err
              | Inr c \<Rightarrow>
                  if row ! 5 \<notin> set teachers then Inl KeyError
                  else if strip (row ! 6) \<noteq> [] \<and> row ! 6 \<notin> set teachers then Inl KeyError
                  else
                    (case sheet_data (row ! 0) of
                       None \<Rightarrow> Inl KeyError
                     | Some roster \<Rightarrow>
                         (case get_column roster 1 of
                            None \<Rightarrow> Inl TypeError
                          | Some col \<Rightarrow>
                              class_rows sheet_data teachers rows
                                (cls(row ! 0 \<mapsto> c\<lparr>cstudents := drop 1 col\<rparr>)))))))"

definition get_classes ::
  "(string \<rightharpoonup> sheet) \<Rightarrow> string list \<Rightarrow> sheet \<Rightarrow> error + (string \<rightharpoonup> class_rec)" where
  "get_classes sheet_data teachers main_sheet =
     (case get_column main_sheet 0 of
        None \<Rightarrow> Inl TypeError
      | Some col \<Rightarrow> class_rows sheet_data teachers (drop 1 main_sheet) Map.empty)"

text \<open>
  \<open>write_placements\<close>: for every registered student and every code of
  \<open>student.classes\<close>, a roster row is written and a welcome email sent when the
  student's id is not among the students of the class. The row is recorded without its
  number, and its position on the sheet is not modelled.
\<close>

record placement_state =
  classes_dict :: "string \<rightharpoonup> class_rec"
  rows_written :: "(string \<times> cell list) list"
  welcomes :: "(string option list \<times> string \<times> string) list"

fun parent_emails :: "(cell \<times> parent) list \<Rightarrow> cell list \<Rightarrow> error + string option list" where
  "parent_emails pd [] = Inr []"
| "parent_emails pd (p_id # ids) =
     (case map_of pd p_id of
        None \<Rightarrow> Inl KeyError
      | Some p \<Rightarrow>
          (case parent_emails pd ids of
             Inl err \<Rightarrow> Inl err
           | Inr es \<Rightarrow> Inr (email p # es)))"

definition write_placement ::
  "(cell \<times> parent) list \<Rightarrow> student \<Rightarrow> string \<Rightarrow> placement_state \<Rightarrow> error + placement_state" where
  "write_placement pd s code st =
     (case classes_dict st code of
        None \<Rightarrow> Inl KeyError
      | Some c \<Rightarrow>
          if ident s \<notin> set (cstudents c) then
            (case parents s of
               [] \<Rightarrow> Inl IndexError
             | p0 # ps \<Rightarrow>
                 (let stud_row = [ident s, Some (first s), Some (lastn s), email s, snote s, p0]
                                   @ (if length (parents s) = 2 then [parents s ! 1] else [])
                  in case parent_emails pd (parents s) of
                       Inl err \<Rightarrow> Inl err
                     | Inr recipients \<Rightarrow>
                         Inr (st\<lparr>classes_dict := (classes_dict st)
                                     (code \<mapsto> c\<lparr>cstudents := cstudents c @ [ident s]\<rparr>),
                                 rows_written := rows_written st @ [(code, stud_row)],
                                 welcomes := welcomes st @ [(recipients, full_name s, code)]\<rparr>)))
          else Inr st)"

fun write_student_codes ::
  "(cell \<times> parent) list \<Rightarrow> student \<Rightarrow> string list \<Rightarrow> placement_state
   \<Rightarrow> error + placement_state" where
  "write_student_codes pd s [] st = Inr st"
| "write_student_codes pd s (code # codes) st =
     (case write_placement pd s code st of
        Inl err \<Rightarrow> Inl err
      | Inr st' \<Rightarrow> write_student_codes pd s codes st')"

fun write_students ::
  "(cell \<times> parent) list \<Rightarrow> student list \<Rightarrow> placement_state \<Rightarrow> error + placement_state" where
  "write_students pd [] st = Inr st"
| "write_students pd (s # ss) st =
     (case write_student_codes pd s (classes s) st of
        Inl err \<Rightarrow> Inl err
      | Inr st' \<Rightarrow> write_students pd ss st')"

definition write_placements ::
  "(cell \<times> student) list \<Rightarrow> (cell \<times> parent) list \<Rightarrow> (string \<rightharpoonup> class_rec)
   \<Rightarrow> error + placement_state" where
  "write_placements studs pd cls =
     write_students pd (map snd studs)
       \<lparr>classes_dict = cls, rows_written = [], welcomes = []\<rparr>"

section \<open>Properties and observations\<close>

text \<open>
  No two codes of a class list share their first four characters.
\<close>

definition one_session_group :: "string list \<Rightarrow> bool" where
  "one_session_group cs = distinct (map (take 4) cs)"

text \<open>
  What a call of \<open>place_student\<close> decided: the accepted codes (\<open>student.classes\<close>), the
  full ones (\<open>unaccepted\<close>) and the invalid ones.
\<close>

definition outcome :: "error + place_state \<Rightarrow> error + (string list \<times> string list \<times> string list)" where
  "outcome res =
     (case res of
        Inl err \<Rightarrow> Inl err
      | Inr s \<Rightarrow> Inr (classes (stud s), unaccepted s, invalid s))"

text \<open>The student registry after a pass: id, names, email and classes of every entry.\<close>

definition registry ::
  "error + run_state \<Rightarrow> error + (cell \<times> string \<times> string \<times> string option \<times> string list) list" where
  "registry res =
     (case res of
        Inl err \<Rightarrow> Inl err
      | Inr st \<Rightarrow> Inr (map (\<lambda>(k, s). (k, first s, lastn s, email s, classes s)) (students st)))"

text \<open>
  \<open>ClassRosterSheet.__init__\<close> followed by \<open>write_placements\<close>, as
  \<open>update_setup_class_sheet\<close> runs them: the pass over the submissions, the classes read
  from the same sheets, and the placements written.
\<close>

definition run_and_write ::
  "(nat \<Rightarrow> string) \<Rightarrow> form_response list \<Rightarrow> sheet \<Rightarrow> sheet \<Rightarrow> (string \<rightharpoonup> sheet) \<Rightarrow> sheet
   \<Rightarrow> string list \<Rightarrow> sheet \<Rightarrow> error + placement_state" where
  "run_and_write uuid4 responses invalid_sheet full_class_sheet sheet_data parent_sheet
     teachers main_sheet =
     (case get_students_parents uuid4 responses invalid_sheet full_class_sheet sheet_data
             parent_sheet of
        Inl err \<Rightarrow> Inl err
      | Inr st \<Rightarrow>
          (case get_classes sheet_data teachers main_sheet of
             Inl err \<Rightarrow> Inl err
           | Inr cls \<Rightarrow> write_placements (students st) (parents_dict st) cls))"

text \<open>The students seated in a class after the placements are written, and its capacity.\<close>

definition seated :: "error + placement_state \<Rightarrow> string \<Rightarrow> error + (cell list \<times> int) option" where
  "seated res code =
     (case res of
        Inl err \<Rightarrow> Inl err
      | Inr w \<Rightarrow> Inr (map_option (\<lambda>c. (cstudents c, CLASS_CAP c)) (classes_dict w code)))"



section \<open>A sample workbook\<close>

text \<open>
  Six classes: 21121 and 31121 are full (capacity 1, one student each: Ann Lee and Bob
  Ray), 41121 has one open seat, 31122, 51121 and 61121 have several. The two parents
  are on the Parents sheet; the notification logs hold their header row only.
\<close>

definition ex_header :: "string list" where
  "ex_header = [''#'', ''UUID'', ''First Name'', ''Last Name'', ''Email'', ''Note'',
                ''Parent 1 UUID'', ''Parent 2 UUID'']"

definition ex_classes :: sheet where
  "ex_classes =
     [[''Code'', ''Course'', ''Level'', ''Days'', ''Time'', ''Teacher 1'', ''Teacher 2'',
       ''Location'', ''Cap''],
      [''21121'', ''Python'', ''Beginner'', ''Mon & Wed'', ''2-3 PM'', ''t1'', [], [], ''1''],
      [''31121'', ''Scratch'', ''Beginner'', ''Mon & Wed'', ''2-3 PM'', ''t1'', [], [], ''1''],
      [''31122'', ''Scratch'', ''Beginner'', ''Mon & Wed'', ''2-3 PM'', ''t1'', [], [], ''2''],
      [''41121'', ''Web Development'', ''Beginner'', ''Mon & Wed'', ''2-3 PM'', ''t1'', [], [],
       ''1''],
      [''51121'', ''Machine Learning'', ''Beginner'', ''Mon & Wed'', ''2-3 PM'', ''t1'', [], [],
       ''5''],
      [''61121'', ''JavaScript'', ''Beginner'', ''Mon & Wed'', ''2-3 PM'', ''t1'', [], [],
       ''5'']]"

definition ex_roster_21121 :: sheet where
  "ex_roster_21121 = [ex_header, [''1'', ''s1'', ''Ann'', ''Lee'', ''ann@x.org'', [], ''p1'']]"

definition ex_roster_31121 :: sheet where
  "ex_roster_31121 = [ex_header, [''1'', ''s2'', ''Bob'', ''Ray'', ''bob@x.org'', [], ''p2'']]"

definition ex_sheet_data :: "string \<rightharpoonup> sheet" where
  "ex_sheet_data =
     [''21121'' \<mapsto> ex_roster_21121, ''31121'' \<mapsto> ex_roster_31121, ''31122'' \<mapsto> [ex_header],
      ''41121'' \<mapsto> [ex_header], ''51121'' \<mapsto> [ex_header], ''61121'' \<mapsto> [ex_header],
      ''Classes'' \<mapsto> ex_classes]"

definition ex_parents :: sheet where
  "ex_parents = [[''UUID'', ''First Name'', ''Last Name'', ''Email''],
                 [''p1'', ''Eve'', ''Lee'', ''eve@x.org''],
                 [''p2'', ''Max'', ''Ray'', ''max@x.org'']]"

definition ex_log :: sheet where
  "ex_log = [[''Student'', ''Parent 1 Email'', ''Parent 2 Email'', ''Code'']]"

definition ex_uuid4 :: "nat \<Rightarrow> string" where
  "ex_uuid4 n = CHR ''u'' # replicate n CHR ''x''"

definition ex_response ::
  "string \<Rightarrow> string \<Rightarrow> string \<Rightarrow> string \<Rightarrow> string \<Rightarrow> string \<Rightarrow> string list \<Rightarrow> form_response" where
  "ex_response sf sl se pf pl pe chs =
     \<lparr>student_first = sf, student_last = sl, student_email = se, student_note = [],
      parent1_first = pf, parent1_last = pl, parent1_email = pe,
      parent2_first = [], parent2_last = [], parent2_email = [], choices = chs\<rparr>"

definition ex_student :: "string \<Rightarrow> string \<Rightarrow> string \<Rightarrow> string \<Rightarrow> string list \<Rightarrow> student" where
  "ex_student f l e u cs =
     \<lparr>first = f, lastn = l, full_name = f @ '' '' @ l, email = Some e, ident = Some u,
      snote = Some [], parents = [], classes = cs\<rparr>"

definition ex_offsets :: "string \<rightharpoonup> int" where
  "ex_offsets = map_option (\<lambda>_. 0) \<circ> ex_sheet_data"

definition ex_place_state :: "student \<Rightarrow> bool \<Rightarrow> place_state" where
  "ex_place_state st fnd =
     \<lparr>stud = st, unaccepted = [], invalid = [], found = fnd, offset_dict = ex_offsets\<rparr>"

definition ex_run_state :: run_state where
  "ex_run_state =
     \<lparr>students = [], parents_dict = [], info_list = [], class_to_planned_writes = ex_offsets,
      invalid_sheet_info = [], full_class_sheet_info = [], effects = [], uuids_drawn = 0\<rparr>"

definition ex_form :: sheet where
  "ex_form =
     [[''Timestamp''],
      [''ts'', [], [], ''Cat'', ''Poe'', ''cat@x.org'', ''Dan'', ''Poe'', ''dan@x.org'', [], [], []]
        @ replicate 13 [] @ [''51121'', ''61121'', ''31122'']]"

text \<open>
  The students of the sample: Ann Lee is seated in 21121 and Bob Ray in 31121; Cat Poe
  is on no roster. \<open>ex_ann_reseated\<close> is the state of Ann's call after her first choice
  21121, where she was matched on the roster.
\<close>

definition ex_ann_info :: stud_info where
  "ex_ann_info = (''Ann'', ''Lee'', ''Eve'', ''Lee'')"

definition ex_bob_info :: stud_info where
  "ex_bob_info = (''Bob'', ''Ray'', ''Max'', ''Ray'')"

definition ex_cat_info :: stud_info where
  "ex_cat_info = (''Cat'', ''Poe'', ''Dan'', ''Poe'')"

definition ex_ann :: student where
  "ex_ann = ex_student ''Ann'' ''Lee'' ''ann@x.org'' ''u2'' []"

definition ex_bob :: student where
  "ex_bob = ex_student ''Bob'' ''Ray'' ''bob@x.org'' ''u2'' []"

definition ex_cat :: student where
  "ex_cat = ex_student ''Cat'' ''Poe'' ''cat@x.org'' ''u2'' []"


definition ex_names_21121 :: "roster_row list" where
  "ex_names_21121 =
     [(Some ''UUID'', Some ''First Name'', Some ''Last Name'', Some ''Parent 1 UUID''),
      (Some ''s1'', Some ''Ann'', Some ''Lee'', Some ''p1'')]"

definition ex_names_31121 :: "roster_row list" where
  "ex_names_31121 =
     [(Some ''UUID'', Some ''First Name'', Some ''Last Name'', Some ''Parent 1 UUID''),
      (Some ''s2'', Some ''Bob'', Some ''Ray'', Some ''p2'')]"

definition ex_names_empty :: "roster_row list" where
  "ex_names_empty =
     [(Some ''UUID'', Some ''First Name'', Some ''Last Name'', Some ''Parent 1 UUID'')]"

text \<open>Submissions of the sample.\<close>

definition ex_ann_form :: form_response where
  "ex_ann_form =
     ex_response ''Ann'' ''Lee'' ''ann@x.org'' ''Eve'' ''Lee'' ''eve@x.org'' [''21121'', ''31121'']"

definition ex_cat_form :: "string list \<Rightarrow> form_response" where
  "ex_cat_form chs = ex_response ''Cat'' ''Poe'' ''cat@x.org'' ''Dan'' ''Poe'' ''dan@x.org'' chs"


definition ex_held_three :: place_state where
  "ex_held_three =
     ex_place_state
       (ex_student ''Cat'' ''Poe'' ''cat@x.org'' ''u2'' [''31122'', ''41121'', ''51121'']) False"

text \<open>
  The seats handed out through the occupancy check stay within the capacity: wherever a
  batch offset is positive, the rows of the roster below its header plus the offset do
  not exceed the capacity of the class.
\<close>

definition offsets_within_capacity :: "(string \<rightharpoonup> sheet) \<Rightarrow> sheet \<Rightarrow> (string \<rightharpoonup> int) \<Rightarrow> bool" where
  "offsets_within_capacity sd ms offs =
     (\<forall>code roster names cap off.
        sd code = Some roster \<and> roster_names roster = Inr names \<and> class_cap ms code = Inr cap
        \<and> offs code = Some off \<and> 0 < off \<longrightarrow>
        int (length names) - 1 + off \<le> cap)"

section \<open>The roster search and the found flag\<close>

lemma find_student_found [simp]:
  "find_student info ps rows (True, sid) = Inr (True, sid)"
proof (induction rows)
  case Nil
  show ?case by simp
next
  case (Cons row rows)
  obtain sf sl pf pl where i: "info = (sf, sl, pf, pl)" by (cases info) auto
  obtain uid rf rl rp where r: "row = (uid, rf, rl, rp)" by (cases row) auto
  from Cons show ?case by (simp add: i r)
qed

lemma find_student_not_found:
  "find_student info ps rows (f, sid) = Inr (False, sid') \<Longrightarrow> \<not> f \<and> sid' = sid"
proof (induction rows arbitrary: f sid)
  case Nil
  then show ?case by simp
next
  case (Cons row rows)
  obtain sf sl pf pl where i: "info = (sf, sl, pf, pl)" by (cases info) auto
  obtain uid rf rl rp where r: "row = (uid, rf, rl, rp)" by (cases row) auto
  show ?case
  proof (cases f)
    case True
    with Cons.prems show ?thesis by simp
  next
    case False
    with Cons.prems Cons.IH[of False sid] show ?thesis
      by (auto simp: i r split: if_splits option.splits)
  qed
qed






lemma place_choice_not_found:
  assumes "strip code \<noteq> []" "\<not> list_ex (session_equivalent code) (classes (stud s))"
    "sd code = Some roster" "roster_names roster = Inr names"
    "find_student info ps (drop 1 names) (found s, ident (stud s)) = Inr (False, sid)"
    "class_cap ms code = Inr cap" "offset_dict s code = Some off"
  shows "place_choice sd ms ps info code s =
     Inr (if int (length names) - 1 + off < cap
          then (accept code s)\<lparr>offset_dict := (offset_dict s)(code \<mapsto> off + 1)\<rparr>
          else s\<lparr>unaccepted := unaccepted s @ [code]\<rparr>)"
proof -
  from find_student_not_found[OF assms(5)] have nf: "\<not> found s" and sid: "sid = ident (stud s)"
    by auto
  have eq: "s\<lparr>stud := (stud s)\<lparr>ident := sid\<rparr>, found := False\<rparr> = s"
    using nf sid by (cases s) simp
  from assms have "place_choice sd ms ps info code s =
     Inr (let s1 = s\<lparr>stud := (stud s)\<lparr>ident := sid\<rparr>, found := False\<rparr> in
          if int (length names) - 1 + off < cap
          then (accept code s1)\<lparr>offset_dict := (offset_dict s1)(code \<mapsto> off + 1)\<rparr>
          else s1\<lparr>unaccepted := unaccepted s1 @ [code]\<rparr>)"
    by (simp add: place_choice_def Let_def)
  then show ?thesis by (simp only: eq Let_def)
qed

section \<open>What one choice can change\<close>

lemma place_choice_skip:
  "list_ex (session_equivalent code) (classes (stud s)) \<Longrightarrow>
   place_choice sd ms ps info code s = Inr s"
  by (simp add: place_choice_def)

lemma place_choice_unknown:
  assumes "strip code \<noteq> []" "\<not> list_ex (session_equivalent code) (classes (stud s))"
    "sd code = None"
  shows "place_choice sd ms ps info code s = Inr (s\<lparr>invalid := invalid s @ [code]\<rparr>)"
  using assms by (simp add: place_choice_def)

lemma one_session_group_snoc:
  "one_session_group cs \<Longrightarrow> \<not> list_ex (session_equivalent code) cs \<Longrightarrow>
   one_session_group (cs @ [code])"
  by (auto simp: one_session_group_def session_equivalent_def list_ex_iff)

lemma place_choice_classes:
  assumes "place_choice sd ms ps info code s = Inr s'"
  shows "classes (stud s') = classes (stud s) \<or>
         (classes (stud s') = classes (stud s) @ [code] \<and> strip code \<noteq> []
          \<and> \<not> list_ex (session_equivalent code) (classes (stud s)))"
  using assms
  by (auto simp: place_choice_def accept_def Let_def split: if_splits option.splits sum.splits)

lemma place_choice_mono:
  assumes "place_choice sd ms ps info code s = Inr s'"
  shows "set (classes (stud s)) \<subseteq> set (classes (stud s'))
         \<and> set (unaccepted s) \<subseteq> set (unaccepted s')"
  using assms
  by (auto simp: place_choice_def accept_def Let_def split: if_splits option.splits sum.splits)

lemma place_loop_mono:
  "place_loop sd ms ps info chs s = Inr s' \<Longrightarrow>
   set (classes (stud s)) \<subseteq> set (classes (stud s'))
     \<and> set (unaccepted s) \<subseteq> set (unaccepted s')"
proof (induction chs arbitrary: s)
  case Nil
  then show ?case by simp
next
  case (Cons c chs)
  from Cons.prems obtain s1 where 1: "place_choice sd ms ps info c s = Inr s1"
    and 2: "place_loop sd ms ps info chs s1 = Inr s'"
    by (auto split: sum.splits)
  from place_choice_mono[OF 1] Cons.IH[OF 2] show ?case by blast
qed

lemma place_loop_length:
  "place_loop sd ms ps info chs s = Inr s' \<Longrightarrow>
   length (classes (stud s')) \<le> length (classes (stud s)) + length chs"
proof (induction chs arbitrary: s)
  case Nil
  then show ?case by simp
next
  case (Cons c chs)
  from Cons.prems obtain s1 where 1: "place_choice sd ms ps info c s = Inr s1"
    and 2: "place_loop sd ms ps info chs s1 = Inr s'"
    by (auto split: sum.splits)
  from place_choice_classes[OF 1] Cons.IH[OF 2] show ?case by auto
qed

lemma place_loop_one_session_group:
  "place_loop sd ms ps info chs s = Inr s' \<Longrightarrow> one_session_group (classes (stud s)) \<Longrightarrow>
   one_session_group (classes (stud s'))"
proof (induction chs arbitrary: s)
  case Nil
  then show ?case by simp
next
  case (Cons c chs)
  from Cons.prems(1) obtain s1 where 1: "place_choice sd ms ps info c s = Inr s1"
    and 2: "place_loop sd ms ps info chs s1 = Inr s'"
    by (auto split: sum.splits)
  from place_choice_classes[OF 1] Cons.prems(2) have "one_session_group (classes (stud s1))"
    by (auto intro: one_session_group_snoc)
  from Cons.IH[OF 2 this] show ?case .
qed

lemma place_full_then_open:
  assumes fresh: "classes st = []"
    and A: "strip A \<noteq> []" "sd A = Some ra" "roster_names ra = Inr na"
      "find_student info ps (drop 1 na) (False, ident st) = Inr (False, sidA)"
      "class_cap ms A = Inr capA" "offs A = Some offA" "capA \<le> int (length na) - 1 + offA"
    and B: "strip B \<noteq> []" "sd B = Some rb" "roster_names rb = Inr nb"
      "find_student info ps (drop 1 nb) (False, ident st) = Inr (False, sidB)"
      "class_cap ms B = Inr capB" "offs B = Some offB" "int (length nb) - 1 + offB < capB"
  shows "place_loop sd ms ps info [A, B]
           \<lparr>stud = st, unaccepted = [], invalid = [], found = False, offset_dict = offs\<rparr>
         = Inr \<lparr>stud = st\<lparr>classes := [B]\<rparr>, unaccepted = [A], invalid = [], found = False,
                offset_dict = offs(B \<mapsto> offB + 1)\<rparr>"
proof -
  let ?s0 = "\<lparr>stud = st, unaccepted = [], invalid = [], found = False, offset_dict = offs\<rparr>"
  let ?s1 = "\<lparr>stud = st, unaccepted = [A], invalid = [], found = False, offset_dict = offs\<rparr>"
  have 1: "place_choice sd ms ps info A ?s0 = Inr ?s1"
    using place_choice_not_found[of A ?s0 sd ra na info ps sidA ms capA offA] fresh A
    by simp
  have 2: "place_choice sd ms ps info B ?s1 =
           Inr \<lparr>stud = st\<lparr>classes := [B]\<rparr>, unaccepted = [A], invalid = [], found = False,
                offset_dict = offs(B \<mapsto> offB + 1)\<rparr>"
    using place_choice_not_found[of B ?s1 sd rb nb info ps sidB ms capB offB] fresh B
    by (simp add: accept_def)
  from 1 2 show ?thesis by simp
qed

lemma outcome_Inr:
  assumes "outcome res = Inr (acc, full, bad)"
  obtains s where "res = Inr s" "classes (stud s) = acc" "unaccepted s = full" "invalid s = bad"
  using assms by (auto simp: outcome_def split: sum.splits)

section \<open>The pass over the submissions\<close>

lemma get_student_classes:
  "get_student r u = Inr (s0, chs) \<Longrightarrow> classes s0 = [] \<and> chs = choices r"
  by (auto simp: get_student_def Student_def set_parents_def set_classes_def MAX_ENROLLMENTS_def
      split: sum.splits if_splits)

lemma set_update_subset: "set (AList.update k v al) \<subseteq> insert (k, v) (set al)"
  by (induction al) auto

lemma register_student_students:
  "(k, x) \<in> set (students (register_student uuid4 r s st)) \<Longrightarrow>
   (k, x) \<in> set (students st) \<or> classes x = classes s"
  by (auto simp: register_student_def Let_def split: prod.splits if_splits
      dest!: set_mp[OF set_update_subset])

lemma process_response_students:
  assumes "process_response uuid4 sd ps r st = Inr st'"
    and "(k, x) \<in> set (students st')"
  shows "(k, x) \<in> set (students st) \<or>
         (\<exists>u offs s0 res. get_student r u = Inr (s0, choices r) \<and>
            place_student s0 (choices r)
              (student_first r, student_last r, parent1_first r, parent1_last r) sd ps offs
              = Inr res \<and>
            classes x = classes (stud res))"
proof (cases "(student_first r, student_last r, parent1_first r, parent1_last r)
                \<in> set (info_list st)")
  case True
  with assms show ?thesis by (simp add: process_response_def)
next
  case False
  with assms(1) obtain s0 chs res where
    g: "get_student r (uuid4 (uuids_drawn st)) = Inr (s0, chs)" and
    p: "place_student s0 chs (student_first r, student_last r, parent1_first r, parent1_last r)
          sd ps (class_to_planned_writes st) = Inr res"
    by (auto simp: process_response_def Let_def split: sum.splits prod.splits)
  from get_student_classes[OF g] have chs: "chs = choices r" by simp
  from assms False g p have "(k, x) \<in> set (students st) \<or> classes x = classes (stud res)"
    by (auto simp: process_response_def Let_def split: if_splits prod.splits
        dest!: register_student_students)
  with g p chs show ?thesis by blast
qed

lemma run_responses_students:
  "run_responses uuid4 sd ps rs st = Inr st' \<Longrightarrow> (k, x) \<in> set (students st') \<Longrightarrow>
   (k, x) \<in> set (students st) \<or>
   (\<exists>r \<in> set rs. \<exists>u offs s0 res. get_student r u = Inr (s0, choices r) \<and>
      place_student s0 (choices r)
        (student_first r, student_last r, parent1_first r, parent1_last r) sd ps offs
        = Inr res \<and>
      classes x = classes (stud res))"
proof (induction rs arbitrary: st)
  case Nil
  then show ?case by simp
next
  case (Cons r rs)
  from Cons.prems(1) obtain st1 where 1: "process_response uuid4 sd ps r st = Inr st1"
    and 2: "run_responses uuid4 sd ps rs st1 = Inr st'"
    by (auto split: sum.splits)
  from Cons.IH[OF 2 Cons.prems(2)] show ?case
  proof
    assume "(k, x) \<in> set (students st1)"
    from process_response_students[OF 1 this] show ?thesis by auto
  next
    assume "\<exists>r \<in> set rs. \<exists>u offs s0 res. get_student r u = Inr (s0, choices r) \<and>
      place_student s0 (choices r)
        (student_first r, student_last r, parent1_first r, parent1_last r) sd ps offs
        = Inr res \<and>
      classes x = classes (stud res)"
    then show ?thesis by auto
  qed
qed

lemma get_students_parents_run:
  assumes "get_students_parents uuid4 rs isheet fsheet sd ps = Inr st"
  obtains st0 where "students st0 = []" "info_list st0 = []"
    "run_responses uuid4 sd ps rs st0 = Inr st"
  using assms
  by (auto simp: get_students_parents_def split: sum.splits option.splits prod.splits
      elim!: that[rotated 2])

lemma registered_student:
  assumes "get_students_parents uuid4 rs isheet fsheet sd ps = Inr st"
    and "(k, x) \<in> set (students st)"
  obtains r s0 res offs where "r \<in> set rs" "classes s0 = []"
    "place_student s0 (choices r)
       (student_first r, student_last r, parent1_first r, parent1_last r) sd ps offs = Inr res"
    "classes x = classes (stud res)"
proof -
  from assms(1) obtain st0 where "students st0 = []"
    "run_responses uuid4 sd ps rs st0 = Inr st"
    by (rule get_students_parents_run)
  from run_responses_students[OF this(2) assms(2)] this(1) obtain r u offs s0 res where
    "r \<in> set rs" "get_student r u = Inr (s0, choices r)"
    "place_student s0 (choices r)
       (student_first r, student_last r, parent1_first r, parent1_last r) sd ps offs = Inr res"
    "classes x = classes (stud res)"
    by auto
  with get_student_classes[OF this(2)] that show thesis by blast
qed

lemma registry_Inr:
  assumes "registry res = Inr entries"
  obtains st where "res = Inr st"
    "entries = map (\<lambda>(k, s). (k, first s, lastn s, email s, classes s)) (students st)"
  using assms by (auto simp: registry_def split: sum.splits)

lemma form_rows_choices:
  "form_rows rows = Inr rs \<Longrightarrow> r \<in> set rs \<Longrightarrow> length (choices r) \<le> 2"
proof (induction rows arbitrary: rs)
  case Nil
  then show ?case by simp
next
  case (Cons row rows)
  have "length (filter (\<lambda>code. strip code \<noteq> []) (take 2 (drop 25 row))) \<le> 2"
    by (rule order_trans[OF length_filter_le]) simp
  with Cons show ?case
    by (auto simp: response_of_row_def split: if_splits sum.splits)
qed

section \<open>Parents\<close>





section \<open>Notification logs\<close>





section \<open>Rows written by write_placements\<close>










section \<open>Offsets and capacity\<close>

lemma place_choice_offset_dict:
  assumes "place_choice sd ms ps info code s = Inr s'"
  shows "offset_dict s' = offset_dict s \<or>
         (\<exists>roster names cap off. sd code = Some roster \<and> roster_names roster = Inr names
            \<and> class_cap ms code = Inr cap \<and> offset_dict s code = Some off
            \<and> int (length names) - 1 + off < cap
            \<and> offset_dict s' = (offset_dict s)(code \<mapsto> off + 1))"
proof (cases "strip code = [] \<or> list_ex (session_equivalent code) (classes (stud s))")
  case True
  then have "place_choice sd ms ps info code s = Inr s"
    by (auto simp: place_choice_def)
  with assms show ?thesis by simp
next
  case False
  show ?thesis
  proof (cases "sd code")
    case None
    with False have "place_choice sd ms ps info code s = Inr (s\<lparr>invalid := invalid s @ [code]\<rparr>)"
      by (simp add: place_choice_def)
    with assms show ?thesis by auto
  next
    case (Some roster)
    show ?thesis
    proof (cases "roster_names roster")
      case (Inl e)
      with False Some have "place_choice sd ms ps info code s = Inl e"
        by (simp add: place_choice_def)
      with assms show ?thesis by simp
    next
      case (Inr names)
      note n = this
      show ?thesis
      proof (cases "find_student info ps (drop 1 names) (found s, ident (stud s))")
        case (Inl e)
        with False Some n have "place_choice sd ms ps info code s = Inl e"
          by (simp add: place_choice_def)
        with assms show ?thesis by simp
      next
        case (Inr fs)
        obtain fnd sid where fs: "fs = (fnd, sid)" by (cases fs) auto
        note f = Inr[unfolded fs]
        show ?thesis
        proof (cases "class_cap ms code")
          case (Inl e)
          with False Some n f have "place_choice sd ms ps info code s = Inl e"
            by (simp add: place_choice_def)
          with assms show ?thesis by simp
        next
          case (Inr cap)
          note c = this
          show ?thesis
          proof (cases "offset_dict s code")
            case None
            with False Some n f c have "place_choice sd ms ps info code s = Inl KeyError"
              by (simp add: place_choice_def)
            with assms show ?thesis by simp
          next
            case (Some off)
            note o = this
            show ?thesis
            proof (cases "int (length names) - 1 + off < cap \<and> \<not> fnd")
              case True
              with False \<open>sd code = Some roster\<close> n f c o
              have "place_choice sd ms ps info code s =
                  Inr ((accept code (s\<lparr>stud := (stud s)\<lparr>ident := sid\<rparr>, found := fnd\<rparr>))
                         \<lparr>offset_dict := (offset_dict s)(code \<mapsto> off + 1)\<rparr>)"
                by (simp add: place_choice_def)
              with assms have "offset_dict s' = (offset_dict s)(code \<mapsto> off + 1)"
                by auto
              with True \<open>sd code = Some roster\<close> n c o show ?thesis by blast
            next
              case nt: False
              with False \<open>sd code = Some roster\<close> n f c o
              have "\<exists>t. place_choice sd ms ps info code s = Inr t \<and> offset_dict t = offset_dict s"
                by (cases fnd) (auto simp: place_choice_def accept_def Let_def)
              with assms show ?thesis by auto
            qed
          qed
        qed
      qed
    qed
  qed
qed

lemma place_choice_offsets:
  assumes "place_choice sd ms ps info code s = Inr s'"
    and "offsets_within_capacity sd ms (offset_dict s)"
  shows "offsets_within_capacity sd ms (offset_dict s')"
  using place_choice_offset_dict[OF assms(1)]
proof
  assume "offset_dict s' = offset_dict s"
  with assms(2) show ?thesis by simp
next
  assume "\<exists>roster names cap off. sd code = Some roster \<and> roster_names roster = Inr names
            \<and> class_cap ms code = Inr cap \<and> offset_dict s code = Some off
            \<and> int (length names) - 1 + off < cap
            \<and> offset_dict s' = (offset_dict s)(code \<mapsto> off + 1)"
  then obtain roster names cap off where seat: "sd code = Some roster"
    "roster_names roster = Inr names" "class_cap ms code = Inr cap"
    "offset_dict s code = Some off" "int (length names) - 1 + off < cap"
    "offset_dict s' = (offset_dict s)(code \<mapsto> off + 1)"
    by blast
  show ?thesis
    unfolding offsets_within_capacity_def
  proof (intro allI impI)
    fix c r n cp off'
    assume h: "sd c = Some r \<and> roster_names r = Inr n \<and> class_cap ms c = Inr cp
               \<and> offset_dict s' c = Some off' \<and> 0 < off'"
    show "int (length n) - 1 + off' \<le> cp"
    proof (cases "c = code")
      case True
      with h seat show ?thesis by simp
    next
      case False
      with h seat have "offset_dict s c = Some off'" by simp
      with h assms(2) show ?thesis
        unfolding offsets_within_capacity_def by blast
    qed
  qed
qed

lemma place_loop_offsets:
  "place_loop sd ms ps info chs s = Inr s' \<Longrightarrow> offsets_within_capacity sd ms (offset_dict s)
   \<Longrightarrow> offsets_within_capacity sd ms (offset_dict s')"
proof (induction chs arbitrary: s)
  case Nil
  then show ?case by simp
next
  case (Cons c chs)
  from Cons.prems(1) obtain s1 where 1: "place_choice sd ms ps info c s = Inr s1"
    and 2: "place_loop sd ms ps info chs s1 = Inr s'"
    by (auto split: sum.splits)
  from Cons.IH[OF 2 place_choice_offsets[OF 1 Cons.prems(2)]] show ?case .
qed

lemma process_response_offsets:
  assumes "process_response uuid4 sd ps r st = Inr st'" "sd ''Classes'' = Some ms"
    and "offsets_within_capacity sd ms (class_to_planned_writes st)"
  shows "offsets_within_capacity sd ms (class_to_planned_writes st')"
proof (cases "(student_first r, student_last r, parent1_first r, parent1_last r)
                \<in> set (info_list st)")
  case True
  with assms show ?thesis by (simp add: process_response_def)
next
  case False
  with assms(1) obtain s0 chs res where
    p: "place_student s0 chs (student_first r, student_last r, parent1_first r, parent1_last r)
          sd ps (class_to_planned_writes st) = Inr res"
    and c: "class_to_planned_writes st' = offset_dict res"
    by (auto simp: process_response_def Let_def register_student_def
        split: sum.splits prod.splits if_splits)
  from p assms(2,3) have "offsets_within_capacity sd ms (offset_dict res)"
    by (auto simp: place_student_def dest: place_loop_offsets)
  with c show ?thesis by simp
qed

lemma run_responses_offsets:
  "run_responses uuid4 sd ps rs st = Inr st' \<Longrightarrow> sd ''Classes'' = Some ms \<Longrightarrow>
   offsets_within_capacity sd ms (class_to_planned_writes st) \<Longrightarrow>
   offsets_within_capacity sd ms (class_to_planned_writes st')"
proof (induction rs arbitrary: st)
  case Nil
  then show ?case by simp
next
  case (Cons r rs)
  from Cons.prems(1) obtain st1 where 1: "process_response uuid4 sd ps r st = Inr st1"
    and 2: "run_responses uuid4 sd ps rs st1 = Inr st'"
    by (auto split: sum.splits)
  from Cons.IH[OF 2 Cons.prems(2) process_response_offsets[OF 1 Cons.prems(2,3)]]
  show ?case .
qed

lemma planned_writes_within_capacity:
  assumes "get_students_parents uuid4 rs isheet fsheet sd ps = Inr st"
    and "sd ''Classes'' = Some ms"
  shows "offsets_within_capacity sd ms (class_to_planned_writes st)"
proof -
  from assms(1) obtain ii fi pd n where
    run: "run_responses uuid4 sd ps rs
            \<lparr>students = [], parents_dict = pd, info_list = [],
             class_to_planned_writes = map_option (\<lambda>_. 0) \<circ> sd,
             invalid_sheet_info = ii, full_class_sheet_info = fi,
             effects = [], uuids_drawn = n\<rparr> = Inr st"
    by (auto simp: get_students_parents_def split: sum.splits option.splits prod.splits)
  have "offsets_within_capacity sd ms (map_option (\<lambda>_. 0) \<circ> sd)"
    by (auto simp: offsets_within_capacity_def)
  with run_responses_offsets[OF run assms(2)] show ?thesis by simp
qed

section \<open>The claims\<close>

subsection \<open>C10: the found flag\<close>



subsection \<open>C5: at most one session of a course\<close>

text \<open>
  Claim C5. No two codes among a student's assigned classes are session-equivalent
  (share their first four characters): a choice that is session-equivalent to a code
  the student already holds is skipped, leaving the whole state of the call as it was
  (no classification, no offset, no change of the student); \<open>place_student\<close> keeps the
  property for any student that has it; and every student in the registry after a pass
  has it.
\<close>

theorem one_session_group_per_student:
  "(list_ex (session_equivalent code) (classes (stud s)) \<longrightarrow>
      place_choice sd ms ps info code s = Inr s)
   \<and> (one_session_group (classes st0) \<and> place_student st0 chs info sd ps offs = Inr res \<longrightarrow>
      one_session_group (classes (stud res)))
   \<and> (get_students_parents uuid4 rs isheet fsheet sd ps = Inr st \<and> (k, x) \<in> set (students st)
      \<longrightarrow> one_session_group (classes x))"
proof -
  have "place_choice sd ms ps info code s = Inr s"
    if "list_ex (session_equivalent code) (classes (stud s))"
    using that by (rule place_choice_skip)
  moreover have 2: "one_session_group (classes (stud res))"
    if "one_session_group (classes st0) \<and> place_student st0 chs info sd ps offs = Inr res"
    for st0 chs info offs res
    using that
    by (auto simp: place_student_def split: option.splits dest: place_loop_one_session_group)
  moreover have "one_session_group (classes x)"
    if "get_students_parents uuid4 rs isheet fsheet sd ps = Inr st \<and> (k, x) \<in> set (students st)"
  proof -
    from that have g: "get_students_parents uuid4 rs isheet fsheet sd ps = Inr st"
      and m: "(k, x) \<in> set (students st)"
      by auto
    from g m obtain r :: form_response and s0 res offs where "classes s0 = []"
      "place_student s0 (choices r)
         (student_first r, student_last r, parent1_first r, parent1_last r) sd ps offs = Inr res"
      "classes x = classes (stud res)"
      by (rule registered_student)
    with 2[of s0 "choices r" _ offs res] show ?thesis by (simp add: one_session_group_def)
  qed
  ultimately show ?thesis by blast
qed

text \<open>
  On the sample: Bob, holding 31122, has his choice 31121 skipped; his whole call keeps
  the property; and the registry after Ann's submission holds her with 21121 and 31121.
\<close>

theorem one_session_group_per_student_witness:
  "place_choice ex_sheet_data ex_classes ex_parents ex_bob_info ''31121''
     (ex_place_state (ex_student ''Bob'' ''Ray'' ''bob@x.org'' ''u2'' [''31122'']) False)
     = Inr (ex_place_state (ex_student ''Bob'' ''Ray'' ''bob@x.org'' ''u2'' [''31122'']) False)
   \<and> outcome (place_student ex_bob [''31122'', ''31121''] ex_bob_info ex_sheet_data ex_parents
        ex_offsets) = Inr ([''31122''], [], [])
   \<and> one_session_group [''31122'']
   \<and> registry (get_students_parents ex_uuid4 [ex_ann_form] ex_log ex_log ex_sheet_data
        ex_parents) = Inr [(Some ''s1'', ''Ann'', ''Lee'', Some ''ann@x.org'', [''21121'', ''31121''])]
   \<and> one_session_group [''21121'', ''31121'']"
proof -
  let ?s = "ex_place_state (ex_student ''Bob'' ''Ray'' ''bob@x.org'' ''u2'' [''31122'']) False"
  note inst = one_session_group_per_student[where code = "''31121''" and s = ?s
      and sd = ex_sheet_data and ms = ex_classes and ps = ex_parents and info = ex_bob_info
      and ?uuid4.0 = ex_uuid4 and rs = "[ex_ann_form]" and isheet = ex_log and fsheet = ex_log]
  have "list_ex (session_equivalent ''31121'') (classes (stud ?s))" by code_simp
  with inst have a: "place_choice ex_sheet_data ex_classes ex_parents ex_bob_info ''31121'' ?s
    = Inr ?s" by blast
  have o: "outcome (place_student ex_bob [''31122'', ''31121''] ex_bob_info ex_sheet_data
      ex_parents ex_offsets) = Inr ([''31122''], [], [])"
    by code_simp
  then obtain res where res: "place_student ex_bob [''31122'', ''31121''] ex_bob_info
      ex_sheet_data ex_parents ex_offsets = Inr res"
    and cl: "classes (stud res) = [''31122'']"
    by (rule outcome_Inr)
  have "one_session_group (classes ex_bob)" by code_simp
  with inst res have "one_session_group (classes (stud res))" by blast
  with cl have b: "one_session_group [''31122'']" by simp
  have r: "registry (get_students_parents ex_uuid4 [ex_ann_form] ex_log ex_log ex_sheet_data
      ex_parents) = Inr [(Some ''s1'', ''Ann'', ''Lee'', Some ''ann@x.org'', [''21121'', ''31121''])]"
    by code_simp
  then obtain st where st: "get_students_parents ex_uuid4 [ex_ann_form] ex_log ex_log
      ex_sheet_data ex_parents = Inr st"
    and "[(Some ''s1'', ''Ann'', ''Lee'', Some ''ann@x.org'', [''21121'', ''31121''])]
         = map (\<lambda>(k, s). (k, first s, lastn s, email s, classes s)) (students st)"
    by (rule registry_Inr)
  then obtain k x where "(k, x) \<in> set (students st)" "classes x = [''21121'', ''31121'']"
    by (cases "students st") auto
  with inst st have "one_session_group [''21121'', ''31121'']" by metis
  with a o b r show ?thesis by simp
qed

subsection \<open>C9: students without a class\<close>

text \<open>
  Claim C9. A submission whose student ends \<open>place_student\<close> with no accepted class
  leaves the student registry and the parents dictionary exactly as they were: no
  Student entry is added, and no parent is created or given the student as a child.
\<close>

theorem zero_classes_not_registered:
  assumes "get_student r (uuid4 (uuids_drawn st)) = Inr (s0, chs)"
    and "place_student s0 chs (student_first r, student_last r, parent1_first r, parent1_last r)
           sd ps (class_to_planned_writes st) = Inr res"
    and "classes (stud res) = []"
  shows "\<exists>st'. process_response uuid4 sd ps r st = Inr st' \<and> students st' = students st
           \<and> parents_dict st' = parents_dict st"
  using assms
  by (auto simp: process_response_def Let_def split: prod.splits)

text \<open>On the sample: Cat asks for the full class 21121 only.\<close>

theorem zero_classes_not_registered_witness:
  "outcome (place_student (ex_student ''Cat'' ''Poe'' ''cat@x.org'' ''u'' []) [''21121'']
      ex_cat_info ex_sheet_data ex_parents ex_offsets) = Inr ([], [''21121''], [])
   \<and> (\<exists>st'. process_response ex_uuid4 ex_sheet_data ex_parents (ex_cat_form [''21121''])
               ex_run_state = Inr st'
          \<and> students st' = students ex_run_state
          \<and> parents_dict st' = parents_dict ex_run_state)"
proof -
  let ?r = "ex_cat_form [''21121'']"
  let ?s0 = "ex_student ''Cat'' ''Poe'' ''cat@x.org'' ''u'' []"
  have g: "get_student ?r (ex_uuid4 (uuids_drawn ex_run_state)) = Inr (?s0, [''21121''])"
    by code_simp
  have i: "(student_first ?r, student_last ?r, parent1_first ?r, parent1_last ?r) = ex_cat_info"
    by code_simp
  have c: "class_to_planned_writes ex_run_state = ex_offsets"
    by (simp add: ex_run_state_def)
  have o: "outcome (place_student ?s0 [''21121''] ex_cat_info ex_sheet_data ex_parents
      ex_offsets) = Inr ([], [''21121''], [])"
    by code_simp
  then obtain res where "place_student ?s0 [''21121''] ex_cat_info ex_sheet_data ex_parents
      ex_offsets = Inr res" "classes (stud res) = []"
    by (rule outcome_Inr)
  with zero_classes_not_registered[where r = ?r and ?uuid4.0 = ex_uuid4 and st = ex_run_state
      and ?s0.0 = ?s0 and chs = "[''21121'']" and sd = ex_sheet_data and ps = ex_parents
      and res = res] g i c o
  show ?thesis by simp
qed

subsection \<open>C6: codes without a roster\<close>

text \<open>
  Claim C6, as stated, fails: a non-blank code that has no roster is not classified at
  all when it is session-equivalent to a code the student already holds. On the sample,
  Cat is accepted into 41121, and her second choice 41129, which has no roster, is
  skipped rather than classified as invalid.
\<close>

theorem unknown_code_skipped_counterexample:
  "strip ''41129'' \<noteq> [] \<and> ex_sheet_data ''41129'' = None
   \<and> outcome (place_student ex_cat [''41121'', ''41129''] ex_cat_info ex_sheet_data ex_parents
        ex_offsets) = Inr ([''41121''], [], [])"
  by code_simp

text \<open>
  Claim C6, amended. A non-blank choice that is not session-equivalent to a code the
  student already holds and has no roster is classified as invalid, the loop goes on
  with the next choice, and nothing else changes: the student, the offsets, the found
  flag and the list of full classes are as before (rosters are only read).
\<close>

theorem unknown_code_classified_invalid:
  assumes "strip code \<noteq> []" "\<not> list_ex (session_equivalent code) (classes (stud s))"
    "sd code = None"
  shows "place_choice sd ms ps info code s = Inr (s\<lparr>invalid := invalid s @ [code]\<rparr>)
         \<and> place_loop sd ms ps info (code # rest) s
             = place_loop sd ms ps info rest (s\<lparr>invalid := invalid s @ [code]\<rparr>)"
  using assms by (simp add: place_choice_unknown)

theorem unknown_code_classified_invalid_witness:
  "ex_sheet_data ''99999'' = None
   \<and> place_choice ex_sheet_data ex_classes ex_parents ex_cat_info ''99999''
       (ex_place_state ex_cat False)
     = Inr ((ex_place_state ex_cat False)
              \<lparr>invalid := invalid (ex_place_state ex_cat False) @ [''99999'']\<rparr>)
   \<and> outcome (place_student ex_cat [''99999''] ex_cat_info ex_sheet_data ex_parents ex_offsets)
     = Inr ([], [], [''99999''])"
proof -
  have h: "strip ''99999'' \<noteq> []"
    "\<not> list_ex (session_equivalent ''99999'') (classes (stud (ex_place_state ex_cat False)))"
    "ex_sheet_data ''99999'' = None"
    by code_simp+
  have o: "outcome (place_student ex_cat [''99999''] ex_cat_info ex_sheet_data ex_parents
      ex_offsets) = Inr ([], [], [''99999''])"
    by code_simp
  from unknown_code_classified_invalid[of "''99999''" "ex_place_state ex_cat False"
      ex_sheet_data ex_classes ex_parents ex_cat_info "[]"] h o
  show ?thesis by simp
qed

subsection \<open>C2: open seats and the order of the choices\<close>

text \<open>
  Claim C2, as stated, fails: the loop does not stop at the first accepted choice. On
  the sample, 21121 is full (capacity 1, one row), 41121 has exactly one open seat
  (capacity 1, no row) and 51121 has room; Cat, who is on no roster, asks for
  [21121, 41121, 51121] and is placed into 41121 and also into 51121.
\<close>

theorem third_choice_also_placed_counterexample:
  "roster_names ex_roster_21121 = Inr ex_names_21121 \<and> length ex_names_21121 = 2
   \<and> class_cap ex_classes ''21121'' = Inr 1 \<and> ex_offsets ''21121'' = Some 0
   \<and> roster_names [ex_header] = Inr ex_names_empty \<and> length ex_names_empty = 1
   \<and> ex_sheet_data ''41121'' = Some [ex_header]
   \<and> class_cap ex_classes ''41121'' = Inr 1 \<and> ex_offsets ''41121'' = Some 0
   \<and> outcome (place_student ex_cat [''21121'', ''41121'', ''51121''] ex_cat_info ex_sheet_data
        ex_parents ex_offsets) = Inr ([''41121'', ''51121''], [''21121''], [])"
  by code_simp

text \<open>
  Claim C2, amended. The choices are processed in the order given. A choice that is not
  blank and not session-equivalent to a code the student already holds, whose code has a
  roster, and after whose roster search the found flag is clear, is accepted if and only
  if the number of roster rows below the header plus the batch offset of the code is
  strictly less than the capacity, and then the offset of that code grows by one;
  otherwise it is classified as full. For a student without classes who is matched on
  neither roster, and choices that begin with A, full, and B, with an open seat: the
  student is placed into B and A is classified as full, whatever choices follow; and a
  third choice C that is session-equivalent to B is not placed (any other third choice is
  decided by the same rule on its own roster).
\<close>

theorem choice_accepted_iff_open_seat:
  "(strip code \<noteq> [] \<and> \<not> list_ex (session_equivalent code) (classes (stud s))
      \<and> sd code = Some roster \<and> roster_names roster = Inr names
      \<and> find_student info ps (drop 1 names) (found s, ident (stud s)) = Inr (False, sid)
      \<and> class_cap ms code = Inr cap \<and> offset_dict s code = Some off \<longrightarrow>
    place_choice sd ms ps info code s =
      Inr (if int (length names) - 1 + off < cap
           then (accept code s)\<lparr>offset_dict := (offset_dict s)(code \<mapsto> off + 1)\<rparr>
           else s\<lparr>unaccepted := unaccepted s @ [code]\<rparr>))
   \<and> (sd ''Classes'' = Some ms \<and> classes st = []
      \<and> strip A \<noteq> [] \<and> sd A = Some ra \<and> roster_names ra = Inr na
      \<and> find_student info ps (drop 1 na) (False, ident st) = Inr (False, sidA)
      \<and> class_cap ms A = Inr capA \<and> offs A = Some offA \<and> capA \<le> int (length na) - 1 + offA
      \<and> strip B \<noteq> [] \<and> sd B = Some rb \<and> roster_names rb = Inr nb
      \<and> find_student info ps (drop 1 nb) (False, ident st) = Inr (False, sidB)
      \<and> class_cap ms B = Inr capB \<and> offs B = Some offB \<and> int (length nb) - 1 + offB < capB
      \<longrightarrow>
    (\<forall>rest res. place_student st (A # B # rest) info sd ps offs = Inr res \<longrightarrow>
        B \<in> set (classes (stud res)) \<and> A \<in> set (unaccepted res))
    \<and> (session_equivalent C B \<longrightarrow>
        outcome (place_student st [A, B, C] info sd ps offs) = Inr ([B], [A], [])))"
proof -
  have one: "place_choice sd ms ps info code s =
      Inr (if int (length names) - 1 + off < cap
           then (accept code s)\<lparr>offset_dict := (offset_dict s)(code \<mapsto> off + 1)\<rparr>
           else s\<lparr>unaccepted := unaccepted s @ [code]\<rparr>)"
    if "strip code \<noteq> [] \<and> \<not> list_ex (session_equivalent code) (classes (stud s))
      \<and> sd code = Some roster \<and> roster_names roster = Inr names
      \<and> find_student info ps (drop 1 names) (found s, ident (stud s)) = Inr (False, sid)
      \<and> class_cap ms code = Inr cap \<and> offset_dict s code = Some off"
    using that by (intro place_choice_not_found) auto
  have two: "(\<forall>rest res. place_student st (A # B # rest) info sd ps offs = Inr res \<longrightarrow>
        B \<in> set (classes (stud res)) \<and> A \<in> set (unaccepted res))
    \<and> (session_equivalent C B \<longrightarrow>
        outcome (place_student st [A, B, C] info sd ps offs) = Inr ([B], [A], []))"
    if h: "sd ''Classes'' = Some ms \<and> classes st = []
      \<and> strip A \<noteq> [] \<and> sd A = Some ra \<and> roster_names ra = Inr na
      \<and> find_student info ps (drop 1 na) (False, ident st) = Inr (False, sidA)
      \<and> class_cap ms A = Inr capA \<and> offs A = Some offA \<and> capA \<le> int (length na) - 1 + offA
      \<and> strip B \<noteq> [] \<and> sd B = Some rb \<and> roster_names rb = Inr nb
      \<and> find_student info ps (drop 1 nb) (False, ident st) = Inr (False, sidB)
      \<and> class_cap ms B = Inr capB \<and> offs B = Some offB \<and> int (length nb) - 1 + offB < capB"
  proof -
    let ?s0 = "\<lparr>stud = st, unaccepted = [], invalid = [], found = False, offset_dict = offs\<rparr>"
    let ?s2 = "\<lparr>stud = st\<lparr>classes := [B]\<rparr>, unaccepted = [A], invalid = [], found = False,
                offset_dict = offs(B \<mapsto> offB + 1)\<rparr>"
    from h have ab: "place_loop sd ms ps info [A, B] ?s0 = Inr ?s2"
      by (intro place_full_then_open) auto
    have "B \<in> set (classes (stud res)) \<and> A \<in> set (unaccepted res)"
      if "place_student st (A # B # rest) info sd ps offs = Inr res" for rest res
    proof -
      from that h ab have "place_loop sd ms ps info rest ?s2 = Inr res"
        by (auto simp: place_student_def split: sum.splits)
      from place_loop_mono[OF this] show ?thesis by auto
    qed
    moreover have "outcome (place_student st [A, B, C] info sd ps offs) = Inr ([B], [A], [])"
      if "session_equivalent C B"
    proof -
      from that have "place_choice sd ms ps info C ?s2 = Inr ?s2"
        by (intro place_choice_skip) simp
      with h ab show ?thesis
        by (auto simp: place_student_def outcome_def split: sum.splits)
    qed
    ultimately show ?thesis by blast
  qed
  from one two show ?thesis by blast
qed

text \<open>
  On the sample, for Cat: 41121 is accepted and its offset becomes 1; of
  [21121, 41121, 51121] the full 21121 is reported and 41121 is hers; and of
  [21121, 41121, 41122] only 41121 is hers.
\<close>

theorem choice_accepted_iff_open_seat_witness:
  "place_choice ex_sheet_data ex_classes ex_parents ex_cat_info ''41121''
      (ex_place_state ex_cat False)
     = Inr ((accept ''41121'' (ex_place_state ex_cat False))
              \<lparr>offset_dict := (offset_dict (ex_place_state ex_cat False))(''41121'' \<mapsto> 1)\<rparr>)
   \<and> outcome (place_student ex_cat [''21121'', ''41121'', ''51121''] ex_cat_info ex_sheet_data
        ex_parents ex_offsets) = Inr ([''41121'', ''51121''], [''21121''], [])
   \<and> ''41121'' \<in> set [''41121'', ''51121''] \<and> ''21121'' \<in> set [''21121'']
   \<and> session_equivalent ''41122'' ''41121''
   \<and> outcome (place_student ex_cat [''21121'', ''41121'', ''41122''] ex_cat_info ex_sheet_data
        ex_parents ex_offsets) = Inr ([''41121''], [''21121''], [])"
proof -
  let ?s = "ex_place_state ex_cat False"
  note inst = choice_accepted_iff_open_seat[where code = "''41121''" and s = ?s
      and sd = ex_sheet_data and roster = "[ex_header]" and names = ex_names_empty
      and info = ex_cat_info and ps = ex_parents and sid = "Some ''u2''" and ms = ex_classes
      and cap = 1 and off = 0 and st = ex_cat and A = "''21121''" and ra = ex_roster_21121
      and na = ex_names_21121 and sidA = "Some ''u2''" and capA = 1 and offs = ex_offsets
      and offA = 0 and B = "''41121''" and rb = "[ex_header]" and nb = ex_names_empty
      and sidB = "Some ''u2''" and capB = 1 and offB = 0 and C = "''41122''"]
  have h1: "strip ''41121'' \<noteq> []"
    "\<not> list_ex (session_equivalent ''41121'') (classes (stud ?s))"
    "ex_sheet_data ''41121'' = Some [ex_header]"
    "roster_names [ex_header] = Inr ex_names_empty"
    "find_student ex_cat_info ex_parents (drop 1 ex_names_empty) (found ?s, ident (stud ?s))
       = Inr (False, Some ''u2'')"
    "class_cap ex_classes ''41121'' = Inr 1" "offset_dict ?s ''41121'' = Some 0"
    "int (length ex_names_empty) - 1 + 0 < 1"
    by code_simp+
  with inst have a: "place_choice ex_sheet_data ex_classes ex_parents ex_cat_info ''41121'' ?s
     = Inr ((accept ''41121'' ?s)\<lparr>offset_dict := (offset_dict ?s)(''41121'' \<mapsto> 1)\<rparr>)"
    by simp
  have h2: "ex_sheet_data ''Classes'' = Some ex_classes" "classes ex_cat = []"
    "strip ''21121'' \<noteq> []" "ex_sheet_data ''21121'' = Some ex_roster_21121"
    "roster_names ex_roster_21121 = Inr ex_names_21121"
    "find_student ex_cat_info ex_parents (drop 1 ex_names_21121) (False, ident ex_cat)
       = Inr (False, Some ''u2'')"
    "class_cap ex_classes ''21121'' = Inr 1" "ex_offsets ''21121'' = Some 0"
    "(1::int) \<le> int (length ex_names_21121) - 1 + 0"
    "find_student ex_cat_info ex_parents (drop 1 ex_names_empty) (False, ident ex_cat)
       = Inr (False, Some ''u2'')"
    "ex_offsets ''41121'' = Some 0"
    by code_simp+
  have se: "session_equivalent ''41122'' ''41121''" by code_simp
  from inst h1 h2 have b:
    "(\<forall>rest res. place_student ex_cat (''21121'' # ''41121'' # rest) ex_cat_info ex_sheet_data
         ex_parents ex_offsets = Inr res \<longrightarrow>
        ''41121'' \<in> set (classes (stud res)) \<and> ''21121'' \<in> set (unaccepted res))
    \<and> (session_equivalent ''41122'' ''41121'' \<longrightarrow>
        outcome (place_student ex_cat [''21121'', ''41121'', ''41122''] ex_cat_info ex_sheet_data
          ex_parents ex_offsets) = Inr ([''41121''], [''21121''], []))"
    by simp
  have o: "outcome (place_student ex_cat [''21121'', ''41121'', ''51121''] ex_cat_info
      ex_sheet_data ex_parents ex_offsets) = Inr ([''41121'', ''51121''], [''21121''], [])"
    by code_simp
  then obtain res where "place_student ex_cat [''21121'', ''41121'', ''51121''] ex_cat_info
      ex_sheet_data ex_parents ex_offsets = Inr res"
    "classes (stud res) = [''41121'', ''51121'']" "unaccepted res = [''21121'']"
    by (rule outcome_Inr)
  with b have "''41121'' \<in> set [''41121'', ''51121''] \<and> ''21121'' \<in> set [''21121'']"
    by metis
  with a b o se show ?thesis by simp
qed

subsection \<open>C3: students already on a roster\<close>




subsection \<open>C1: capacity\<close>

text \<open>
  Claim C1 is not met by the code. On the sample, 31121 has capacity 1 and its roster
  holds one student (s2). Ann is seated in 21121; her submission asks for
  [21121, 31121]. The search of roster 21121 sets the found flag, the flag is still set
  at her second choice, and she is accepted into 31121 with no look at its occupancy
  and no increment of its offset. \<open>write_placements\<close> then writes her row: 31121 ends
  with two students.
\<close>

theorem capacity_exceeded_after_reseat:
  "class_cap ex_classes ''31121'' = Inr 1
   \<and> roster_names ex_roster_31121 = Inr ex_names_31121 \<and> length ex_names_31121 = 2
   \<and> outcome (place_student ex_ann [''21121'', ''31121''] ex_ann_info ex_sheet_data ex_parents
        ex_offsets) = Inr ([''21121'', ''31121''], [], [])
   \<and> seated (run_and_write ex_uuid4 [ex_ann_form] ex_log ex_log ex_sheet_data ex_parents
        [''t1''] ex_classes) ''31121'' = Inr (Some ([Some ''s2'', Some ''s1''], 1))"
  by code_simp

subsection \<open>C8: notifications\<close>



subsection \<open>C7: resolving people\<close>




subsection \<open>C4: the enrollment limit\<close>

text \<open>
  Claim C4, as stated, fails: \<open>place_student\<close> appends to \<open>student.classes\<close> directly and
  raises nothing at a fourth class. On the sample, a student holding three classes of
  three different courses who asks for 61121, which has room, holds four classes
  afterwards; so does a student without classes who asks for four open classes.
\<close>

theorem fourth_class_accepted_counterexample:
  "outcome (place_student (stud ex_held_three) [''61121''] ex_cat_info ex_sheet_data ex_parents
      ex_offsets) = Inr ([''31122'', ''41121'', ''51121'', ''61121''], [], [])
   \<and> outcome (place_student ex_cat [''31122'', ''41121'', ''51121'', ''61121''] ex_cat_info
        ex_sheet_data ex_parents ex_offsets)
     = Inr ([''31122'', ''41121'', ''51121'', ''61121''], [], [])"
  by code_simp

text \<open>
  Claim C4, amended. The limit of 3 classes is checked by \<open>Student.set_classes\<close> alone,
  which refuses a list of more than 3 codes with ValueError and installs any other list.
  \<open>place_student\<close> has no such check: a choice with an open seat (found flag clear) is
  accepted however many classes the student holds, and a call that returns has added at
  most one class per choice. In a pass over the submissions that \<open>get_form_responses\<close>
  reads, every registered student holds at most 2 classes, so the limit is not reached.
\<close>

theorem enrollment_limit_only_in_set_classes:
  "set_classes x0 cs = (if length cs > 3 then Inl ValueError else Inr (x0\<lparr>classes := cs\<rparr>))
   \<and> (strip code \<noteq> [] \<and> \<not> list_ex (session_equivalent code) (classes (stud s))
      \<and> sd code = Some roster \<and> roster_names roster = Inr names
      \<and> find_student info ps (drop 1 names) (found s, ident (stud s)) = Inr (False, sid)
      \<and> class_cap ms code = Inr cap \<and> offset_dict s code = Some off
      \<and> int (length names) - 1 + off < cap \<longrightarrow>
      place_choice sd ms ps info code s
        = Inr ((accept code s)\<lparr>offset_dict := (offset_dict s)(code \<mapsto> off + 1)\<rparr>))
   \<and> (\<forall>s'. place_loop sd ms ps info chs s = Inr s' \<longrightarrow>
         length (classes (stud s')) \<le> length (classes (stud s)) + length chs)
   \<and> (get_form_responses form = Inr rs
      \<and> get_students_parents uuid4 rs isheet fsheet sd ps = Inr run
      \<and> (k, x) \<in> set (students run) \<longrightarrow> length (classes x) \<le> 2)"
proof -
  have one: "set_classes x0 cs
      = (if length cs > 3 then Inl ValueError else Inr (x0\<lparr>classes := cs\<rparr>))"
    by (simp add: set_classes_def MAX_ENROLLMENTS_def)
  have two: "place_choice sd ms ps info code s
        = Inr ((accept code s)\<lparr>offset_dict := (offset_dict s)(code \<mapsto> off + 1)\<rparr>)"
    if "strip code \<noteq> [] \<and> \<not> list_ex (session_equivalent code) (classes (stud s))
      \<and> sd code = Some roster \<and> roster_names roster = Inr names
      \<and> find_student info ps (drop 1 names) (found s, ident (stud s)) = Inr (False, sid)
      \<and> class_cap ms code = Inr cap \<and> offset_dict s code = Some off
      \<and> int (length names) - 1 + off < cap"
    using that
      place_choice_not_found[of code s sd roster names info ps sid ms cap off]
    by simp
  have three: "length (classes (stud s')) \<le> length (classes (stud s)) + length chs"
    if "place_loop sd ms ps info chs s = Inr s'" for s'
    using that by (rule place_loop_length)
  have four: "length (classes x) \<le> 2"
    if h: "get_form_responses form = Inr rs
      \<and> get_students_parents uuid4 rs isheet fsheet sd ps = Inr run
      \<and> (k, x) \<in> set (students run)"
  proof -
    from h have g: "get_students_parents uuid4 rs isheet fsheet sd ps = Inr run"
      and m: "(k, x) \<in> set (students run)" and f: "form_rows (drop 1 form) = Inr rs"
      by (auto simp: get_form_responses_def)
    from g m obtain r :: form_response and s0 res offs where r: "r \<in> set rs"
      and e: "classes s0 = []"
      and p: "place_student s0 (choices r)
         (student_first r, student_last r, parent1_first r, parent1_last r) sd ps offs = Inr res"
      and c: "classes x = classes (stud res)"
      by (rule registered_student)
    from p e have "length (classes (stud res)) \<le> length (choices r)"
      by (auto simp: place_student_def split: option.splits dest!: place_loop_length)
    with form_rows_choices[OF f r] c show ?thesis by simp
  qed
  from one two three four show ?thesis by blast
qed

text \<open>
  On the sample: the student holding three classes is accepted into 61121; and the form
  row of Cat, whose cells 25 to 27 hold three codes, is read with two choices and leaves
  her registered with two classes.
\<close>

theorem enrollment_limit_only_in_set_classes_witness:
  "set_classes ex_cat [''31122'', ''41121'', ''51121'', ''61121''] = Inl ValueError
   \<and> length (classes (stud ex_held_three)) = 3
   \<and> place_choice ex_sheet_data ex_classes ex_parents ex_cat_info ''61121'' ex_held_three
       = Inr ((accept ''61121'' ex_held_three)
                \<lparr>offset_dict := (offset_dict ex_held_three)(''61121'' \<mapsto> 1)\<rparr>)
   \<and> length (classes (stud ((accept ''61121'' ex_held_three)
                \<lparr>offset_dict := (offset_dict ex_held_three)(''61121'' \<mapsto> 1)\<rparr>))) \<le> 3 + 1
   \<and> get_form_responses ex_form = Inr [ex_cat_form [''51121'', ''61121'']]
   \<and> registry (get_students_parents ex_uuid4 [ex_cat_form [''51121'', ''61121'']] ex_log ex_log
        ex_sheet_data ex_parents)
       = Inr [(Some ''uxx'', ''Cat'', ''Poe'', Some ''cat@x.org'', [''51121'', ''61121''])]
   \<and> length [''51121'', ''61121''] \<le> (2::nat)"
proof -
  let ?s = ex_held_three
  let ?s' = "(accept ''61121'' ?s)\<lparr>offset_dict := (offset_dict ?s)(''61121'' \<mapsto> 1)\<rparr>"
  let ?rs = "[ex_cat_form [''51121'', ''61121'']]"
  note inst = enrollment_limit_only_in_set_classes[where ?x0.0 = ex_cat
      and cs = "[''31122'', ''41121'', ''51121'', ''61121'']" and code = "''61121''" and s = ?s
      and sd = ex_sheet_data and roster = "[ex_header]" and names = ex_names_empty
      and info = ex_cat_info and ps = ex_parents and sid = "Some ''u2''" and ms = ex_classes
      and cap = 5 and off = 0 and chs = "[''61121'']" and form = ex_form and rs = ?rs
      and ?uuid4.0 = ex_uuid4 and isheet = ex_log and fsheet = ex_log]
  from inst[THEN conjunct1]
  have a: "set_classes ex_cat [''31122'', ''41121'', ''51121'', ''61121''] = Inl ValueError"
    by simp
  have l: "length (classes (stud ?s)) = 3" by code_simp
  have h: "strip ''61121'' \<noteq> [] \<and> \<not> list_ex (session_equivalent ''61121'') (classes (stud ?s))
      \<and> ex_sheet_data ''61121'' = Some [ex_header] \<and> roster_names [ex_header] = Inr ex_names_empty
      \<and> find_student ex_cat_info ex_parents (drop 1 ex_names_empty) (found ?s, ident (stud ?s))
          = Inr (False, Some ''u2'')
      \<and> class_cap ex_classes ''61121'' = Inr 5 \<and> offset_dict ?s ''61121'' = Some 0
      \<and> int (length ex_names_empty) - 1 + 0 < 5"
    by code_simp
  from inst[THEN conjunct2, THEN conjunct1, rule_format, OF h]
  have b: "place_choice ex_sheet_data ex_classes ex_parents ex_cat_info ''61121'' ?s = Inr ?s'"
    by simp
  then have "place_loop ex_sheet_data ex_classes ex_parents ex_cat_info [''61121''] ?s = Inr ?s'"
    by simp
  from inst[THEN conjunct2, THEN conjunct2, THEN conjunct1, rule_format, OF this] l
  have c: "length (classes (stud ?s')) \<le> 3 + 1" by simp
  have f: "get_form_responses ex_form = Inr ?rs" by code_simp
  have r: "registry (get_students_parents ex_uuid4 ?rs ex_log ex_log ex_sheet_data ex_parents)
       = Inr [(Some ''uxx'', ''Cat'', ''Poe'', Some ''cat@x.org'', [''51121'', ''61121''])]"
    by code_simp
  then obtain run where run: "get_students_parents ex_uuid4 ?rs ex_log ex_log ex_sheet_data
      ex_parents = Inr run"
    and "[(Some ''uxx'', ''Cat'', ''Poe'', Some ''cat@x.org'', [''51121'', ''61121''])]
         = map (\<lambda>(k, s). (k, first s, lastn s, email s, classes s)) (students run)"
    by (rule registry_Inr)
  then obtain k x where kx: "(k, x) \<in> set (students run)"
    and cx: "classes x = [''51121'', ''61121'']"
    by (cases "students run") auto
  from f run kx have "get_form_responses ex_form = Inr ?rs
      \<and> get_students_parents ex_uuid4 ?rs ex_log ex_log ex_sheet_data ex_parents = Inr run
      \<and> (k, x) \<in> set (students run)"
    by simp
  from inst[THEN conjunct2, THEN conjunct2, THEN conjunct2, rule_format, OF this] cx
  have d: "length [''51121'', ''61121''] \<le> (2::nat)" by simp
  from a l b c f r d show ?thesis by (intro conjI)
qed

end
